theory Spec2Isabelle
  imports Main
begin

section \<open>Errors and basic values\<close>

text \<open>
  The exceptions the sources raise, each with the fixed part of its message: two
  failures of the same Python class are told apart by their message, as a caller
  would.
\<close>

datatype error =
    TypeError string
  | ValueError string
  | NotImplementedError string
  | KeyError string
  | IndexError string
  | AttributeError string

text \<open>The classes of \<open>odl.space.set\<close> that occur as \<open>type(space.field)\<close>.\<close>

datatype field_type = RealNumbers | ComplexNumbers | Integers

text \<open>The concrete data-space classes of \<open>odl.space.cartesian\<close> and \<open>odl.space.cuda\<close>.\<close>

datatype space_type = Ntuples | Rn | Cn | CudaNtuples | CudaRn

text \<open>
  A space object as the sources see it: the capability tests they apply
  (\<open>isinstance\<close>) and the attributes they read. \<open>attr_field = None\<close> is an object
  without a \<open>field\<close> attribute; \<open>sp_ident\<close> stands for everything else the object's
  own \<open>==\<close> compares.
\<close>

record space =
  sp_ident :: string
  isinstance_Set :: bool
  isinstance_LinearSpace :: bool
  isinstance_L2 :: bool
  isinstance_NtuplesBase :: bool
  isinstance_FnBase :: bool
  attr_field :: "field_type option"
  attr_dim :: int
  attr_dtype :: string

section \<open>The data-space type resolver (discretization.py, dspace_type)\<close>

text \<open>
  The module-level names bound by the \<open>try: from odl.space.cuda import ...\<close>
  block: a name bound to Python's \<open>None\<close> is \<open>None\<close> here.
\<close>

record cuda_module =
  CudaNtuples_name :: "space_type option"
  CudaRn_name :: "space_type option"
  CudaCn_name :: "space_type option"
  CUDA_AVAILABLE :: bool

definition import_cuda :: "bool \<Rightarrow> cuda_module" where
  "import_cuda import_ok =
     (if import_ok
      then \<lparr>CudaNtuples_name = Some CudaNtuples, CudaRn_name = Some CudaRn,
            CudaCn_name = None, CUDA_AVAILABLE = True\<rparr>
      else \<lparr>CudaNtuples_name = None, CudaRn_name = None,
            CudaCn_name = None, CUDA_AVAILABLE = False\<rparr>)"

definition spacetype_map ::
  "cuda_module \<Rightarrow> string \<rightharpoonup> (field_type option \<rightharpoonup> space_type option)" where
  "spacetype_map m =
     [''numpy'' \<mapsto> [Some RealNumbers \<mapsto> Some Rn,
                    Some ComplexNumbers \<mapsto> Some Cn,
                    None \<mapsto> Some Ntuples],
      ''cuda'' \<mapsto> [Some RealNumbers \<mapsto> CudaRn_name m,
                   Some ComplexNumbers \<mapsto> None,
                   None \<mapsto> CudaNtuples_name m]]"

definition dspace_type :: "cuda_module \<Rightarrow> space \<Rightarrow> string \<Rightarrow> error + space_type" where
  "dspace_type m space impl =
     (if impl \<notin> set [''numpy'', ''cuda'']
      then Inl (ValueError ''implementation type {} not understood.'')
      else if impl = ''cuda'' \<and> \<not> CUDA_AVAILABLE m
      then Inl (ValueError ''CUDA implementation not available.'')
      else
        (let field_type = attr_field space in
         case spacetype_map m impl of
           None \<Rightarrow> Inl (KeyError impl)
         | Some row \<Rightarrow>
            (case row field_type of
               None \<Rightarrow> Inl (KeyError ''field_type'')
             | Some stype \<Rightarrow>
                (case stype of
                   None \<Rightarrow> Inl (NotImplementedError
                     ''no corresponding data space available for space {!r} and implementation {!r}.'')
                 | Some t \<Rightarrow> Inr t))))"

text \<open>The table of the resolver as the specification words it, with a missing entry as \<open>None\<close>.\<close>

fun table_entry :: "string \<Rightarrow> field_type option \<Rightarrow> space_type option" where
  "table_entry impl (Some RealNumbers) = (if impl = ''numpy'' then Some Rn else Some CudaRn)"
| "table_entry impl (Some ComplexNumbers) = (if impl = ''numpy'' then Some Cn else None)"
| "table_entry impl None = (if impl = ''numpy'' then Some Ntuples else Some CudaNtuples)"
| "table_entry impl (Some Integers) = None"

section \<open>Operators, the store and the external collaborators\<close>

text \<open>
  An operator object as the discretization sees it: whether it is an \<open>Operator\<close>
  and a \<open>LinearOperator\<close> instance, its \<open>domain\<close> and \<open>range\<close>, and its \<open>order\<close>
  attribute where it has one. \<open>op_ident\<close> stands for what the operator's own \<open>==\<close>
  compares besides.
\<close>

record operator =
  op_ident :: string
  isinstance_Operator :: bool
  isinstance_LinearOperator :: bool
  op_domain :: space
  op_range :: space
  op_order :: "string option"

text \<open>
  Data-space vectors are mutable objects, so they live in a store and are named by
  their address: the address of a new object is the length of the store.
\<close>

type_synonym addr = nat

record 'a ntuple =
  nt_space :: space
  nt_data :: "'a list"

type_synonym 'a store = "'a ntuple list"

text \<open>A Python value handed to \<open>element\<close>: a data-space vector or any other object.\<close>

datatype 'i pyobj = NtupleVec addr | Obj 'i

text \<open>
  What the sources consume from classes that are not part of them: membership in
  and element creation of the two spaces, operator application, the array coercion
  of numpy, and the linear-space primitives of the data space.
\<close>

record ('a, 'i) env =
  ds_contains :: "space \<Rightarrow> 'a ntuple \<Rightarrow> bool"
  ds_isvector :: "space \<Rightarrow> 'a ntuple \<Rightarrow> bool"
  ds_element :: "space \<Rightarrow> 'a list option \<Rightarrow> 'a store \<Rightarrow> error + ('i pyobj \<times> 'a store)"
  us_contains :: "space \<Rightarrow> 'a store \<Rightarrow> 'i pyobj \<Rightarrow> bool"
  us_element :: "space \<Rightarrow> 'i pyobj \<Rightarrow> 'a store \<Rightarrow> error + 'i pyobj"
  op_call :: "operator \<Rightarrow> 'i pyobj \<Rightarrow> 'a store \<Rightarrow> error + ('i pyobj \<times> 'a store)"
  np_asarray :: "'i pyobj \<Rightarrow> string \<Rightarrow> string \<Rightarrow> 'a store \<Rightarrow> error + 'a list"
  ds_zero :: "space \<Rightarrow> 'a store \<Rightarrow> error + ('i pyobj \<times> 'a store)"
  ds_lincomb :: "space \<Rightarrow> addr \<Rightarrow> 'a \<Rightarrow> addr \<Rightarrow> 'a \<Rightarrow> addr \<Rightarrow> 'a store \<Rightarrow> error + 'a store"
  ds_dist :: "space \<Rightarrow> addr \<Rightarrow> addr \<Rightarrow> 'a store \<Rightarrow> error + 'a"
  ds_norm :: "space \<Rightarrow> addr \<Rightarrow> 'a store \<Rightarrow> error + 'a"
  ds_inner :: "space \<Rightarrow> addr \<Rightarrow> addr \<Rightarrow> 'a store \<Rightarrow> error + 'a"
  ds_multiply :: "space \<Rightarrow> addr \<Rightarrow> addr \<Rightarrow> addr \<Rightarrow> 'a store \<Rightarrow> error + 'a store"

text \<open>
  \<open>inp in self.dspace\<close> and \<open>isinstance(ntuple, space.dspace.Vector)\<close>: only a
  data-space vector can pass, and whether it does depends on the vector, not on where
  it is stored.
\<close>

fun contains_dspace :: "('a, 'i) env \<Rightarrow> space \<Rightarrow> 'a store \<Rightarrow> 'i pyobj \<Rightarrow> bool" where
  "contains_dspace E ds s (NtupleVec a) = (a < length s \<and> ds_contains E ds (s ! a))"
| "contains_dspace E ds s (Obj x) = False"

fun isinstance_dspace_Vector :: "('a, 'i) env \<Rightarrow> space \<Rightarrow> 'a store \<Rightarrow> 'i pyobj \<Rightarrow> bool" where
  "isinstance_dspace_Vector E ds s (NtupleVec a) = (a < length s \<and> ds_isvector E ds (s ! a))"
| "isinstance_dspace_Vector E ds s (Obj x) = False"

section \<open>RawDiscretization and Discretization (discretization.py)\<close>

datatype discr_class = RawDiscretizationC | DiscretizationC | DiscreteL2C

text \<open>
  The attributes of a discretization object: \<open>p_dim\<close> and \<open>p_dtype\<close> are the \<open>_dim\<close>
  and \<open>_dtype\<close> of the inherited n-tuple base class, the others are set by
  \<open>RawDiscretization.__init__\<close>.
\<close>

record discretization =
  d_class :: discr_class
  p_dim :: int
  p_dtype :: string
  p_uspace :: space
  p_dspace :: space
  p_restriction :: "operator option"
  p_extension :: "operator option"
  p_order :: string

text \<open>
  Modelled from the spec: \<open>NtuplesBase.__init__(dim, dtype)\<close> of
  \<open>odl.space.cartesian\<close> is not under src/. The data space exposes a dimension and an
  element dtype; the initializer records the two it is given as the object's own.
\<close>

definition NtuplesBase_init :: "int \<Rightarrow> string \<Rightarrow> discretization \<Rightarrow> discretization" where
  "NtuplesBase_init dim dtype self = self\<lparr>p_dim := dim, p_dtype := dtype\<rparr>"

definition dim :: "discretization \<Rightarrow> int" where
  "dim self = p_dim self"

definition dtype :: "discretization \<Rightarrow> string" where
  "dtype self = p_dtype self"

definition check_restr :: "space \<Rightarrow> space \<Rightarrow> string \<Rightarrow> operator option \<Rightarrow> error option" where
  "check_restr uspace dspace order restr =
     (case restr of
        None \<Rightarrow> None
      | Some r \<Rightarrow>
         if \<not> isinstance_Operator r
         then Some (TypeError ''restriction operator {} not an `Operator` instance.'')
         else if op_domain r \<noteq> uspace
         then Some (ValueError
           ''restriction operator domain {} not equal to the undiscretized space {}.'')
         else if op_range r \<noteq> dspace
         then Some (ValueError ''restriction operator range {} not equal tothe data space {}.'')
         else if op_order r \<noteq> None \<and> op_order r \<noteq> Some order
         then Some (ValueError
           ''ordering {!r} of the restriction operator differs from given ordering {!r}.'')
         else None)"

definition check_ext :: "space \<Rightarrow> space \<Rightarrow> string \<Rightarrow> operator option \<Rightarrow> error option" where
  "check_ext uspace dspace order ext =
     (case ext of
        None \<Rightarrow> None
      | Some x \<Rightarrow>
         if \<not> isinstance_Operator x
         then Some (TypeError ''extension operator {} not an `Operator` instance.'')
         else if op_domain x \<noteq> dspace
         then Some (ValueError ''extension operator domain {} not equal tothe data space {}.'')
         else if op_range x \<noteq> uspace
         then Some (ValueError
           ''extension operator range {} not equal tothe undiscretized space {}.'')
         else if op_order x \<noteq> None \<and> op_order x \<noteq> Some order
         then Some (ValueError
           ''ordering {!r} of the extension operator differs from given ordering {!r}.'')
         else None)"

text \<open>
  \<open>RawDiscretization.__init__\<close>. \<open>cls\<close> is the class being instantiated and
  \<open>order_kw\<close> the \<open>order\<close> keyword argument (\<open>None\<close> when it is not given). No
  attribute is set before every check has passed.
\<close>

definition RawDiscretization_init ::
  "discr_class \<Rightarrow> space \<Rightarrow> space \<Rightarrow> operator option \<Rightarrow> operator option \<Rightarrow> string option
   \<Rightarrow> error + discretization" where
  "RawDiscretization_init cls uspace dspace restr ext order_kw =
     (if \<not> isinstance_Set uspace
      then Inl (TypeError ''undiscretized space {} not a `Set` instance.'')
      else if \<not> isinstance_NtuplesBase dspace
      then Inl (TypeError ''data space {} not an `NtuplesBase` instance.'')
      else
        (let order = (case order_kw of None \<Rightarrow> ''C'' | Some ord \<Rightarrow> ord) in
         if order \<notin> set [''C'', ''F'']
         then Inl (ValueError ''order {!r} not understood.'')
         else
           (case check_restr uspace dspace order restr of
              Some e \<Rightarrow> Inl e
            | None \<Rightarrow>
               (case check_ext uspace dspace order ext of
                  Some e \<Rightarrow> Inl e
                | None \<Rightarrow>
                   Inr (NtuplesBase_init (attr_dim dspace) (attr_dtype dspace)
                         \<lparr>d_class = cls, p_dim = 0, p_dtype = [],
                          p_uspace = uspace, p_dspace = dspace,
                          p_restriction = restr, p_extension = ext,
                          p_order = order\<rparr>)))))"

text \<open>
  \<open>Discretization.__init__\<close>: the raw initializer first, then \<open>FnBase.__init__\<close>
  (not under src/; it is given the same two values), then the checks of the linear
  structure.
\<close>

definition Discretization_init ::
  "discr_class \<Rightarrow> space \<Rightarrow> space \<Rightarrow> operator option \<Rightarrow> operator option \<Rightarrow> string option
   \<Rightarrow> error + discretization" where
  "Discretization_init cls uspace dspace restr ext order_kw =
     (case RawDiscretization_init cls uspace dspace restr ext order_kw of
        Inl e \<Rightarrow> Inl e
      | Inr self0 \<Rightarrow>
         (let self = NtuplesBase_init (attr_dim dspace) (attr_dtype dspace) self0 in
          if \<not> isinstance_LinearSpace uspace
          then Inl (TypeError ''undiscretized space {} not a `LinearSpace` instance.'')
          else if \<not> isinstance_FnBase dspace
          then Inl (TypeError ''data space {} not an `FnBase` instance.'')
          else if attr_field uspace \<noteq> attr_field dspace
          then Inl (ValueError
            ''fields {} and {} of the undiscretized and data spaces, resp., are not equal.'')
          else if (case restr of None \<Rightarrow> False | Some r \<Rightarrow> \<not> isinstance_LinearOperator r)
          then Inl (TypeError ''restriction operator {} is not a `LinearOperator` instance.'')
          else if (case ext of None \<Rightarrow> False | Some x \<Rightarrow> \<not> isinstance_LinearOperator x)
          then Inl (TypeError ''extension operator {} is not a `LinearOperator` instance.'')
          else Inr self))"

section \<open>DiscreteL2 (default.py)\<close>

text \<open>
  The two operator classes of \<open>odl.discr.operators\<close> are not under src/: their
  constructors are parameters, called with the space, the grid, the data space and
  the \<open>order\<close> keyword.
\<close>

record 'g operators_module =
  GridCollocation :: "space \<Rightarrow> 'g \<Rightarrow> space \<Rightarrow> string \<Rightarrow> error + operator"
  NearestInterpolation :: "space \<Rightarrow> 'g \<Rightarrow> space \<Rightarrow> string \<Rightarrow> error + operator"

definition supported_interp :: "string list" where
  "supported_interp = [''nearest'']"

text \<open>
  \<open>DiscreteL2.__init__\<close>; \<open>interp\<close> is the string \<open>str(interp)\<close>. The call of the
  parent initializer passes no \<open>order\<close> keyword.
\<close>

definition DiscreteL2_init ::
  "'g operators_module \<Rightarrow> space \<Rightarrow> 'g \<Rightarrow> space \<Rightarrow> string \<Rightarrow> string option
   \<Rightarrow> error + discretization" where
  "DiscreteL2_init M l2space grid dspace interp order_kw =
     (if \<not> isinstance_L2 l2space
      then Inl (TypeError ''{} is not an `L2` type space.'')
      else if interp \<notin> set supported_interp
      then Inl (ValueError ''{} is not among the supported interpolationtypes {}.'')
      else
        (let order = (case order_kw of None \<Rightarrow> ''C'' | Some ord \<Rightarrow> ord) in
         case GridCollocation M l2space grid dspace order of
           Inl e \<Rightarrow> Inl e
         | Inr restriction \<Rightarrow>
            if interp = ''nearest''
            then
              (case NearestInterpolation M l2space grid dspace order of
                 Inl e \<Rightarrow> Inl e
               | Inr extension \<Rightarrow>
                  Discretization_init DiscreteL2C l2space dspace
                    (Some restriction) (Some extension) None)
            else Inl (NotImplementedError [])))"

section \<open>Properties and elements of a discretization\<close>

definition uspace :: "discretization \<Rightarrow> space" where
  "uspace self = p_uspace self"

definition dspace :: "discretization \<Rightarrow> space" where
  "dspace self = p_dspace self"

definition restriction :: "discretization \<Rightarrow> error + operator" where
  "restriction self =
     (case p_restriction self of
        Some r \<Rightarrow> Inr r
      | None \<Rightarrow> Inl (NotImplementedError ''no restriction operator provided.''))"

definition extension :: "discretization \<Rightarrow> error + operator" where
  "extension self =
     (case p_extension self of
        Some x \<Rightarrow> Inr x
      | None \<Rightarrow> Inl (NotImplementedError ''no extension operator provided.''))"

definition order :: "discretization \<Rightarrow> string" where
  "order self = p_order self"

subsection \<open>Elements\<close>

datatype vector_class = RawDiscretization_Vector | Discretization_Vector

record vector =
  v_class :: vector_class
  v_space :: discretization
  v_ntuple :: addr

text \<open>\<open>self.Vector\<close>: the element class of the discretization's class.\<close>

fun Vector_of :: "discr_class \<Rightarrow> vector_class" where
  "Vector_of RawDiscretizationC = RawDiscretization_Vector"
| "Vector_of DiscretizationC = Discretization_Vector"
| "Vector_of DiscreteL2C = Discretization_Vector"

text \<open>
  \<open>Vector.__init__(space, ntuple)\<close>. The argument \<open>space\<close> is a discretization here,
  and \<open>Discretization.Vector\<close> is the element class of the linear classes only, so
  the two tests on \<open>space\<close> pass; the test on the n-tuple is the one that can fail.
\<close>

fun Vector_init ::
  "('a, 'i) env \<Rightarrow> discretization \<Rightarrow> 'i pyobj \<Rightarrow> 'a store \<Rightarrow> error + vector" where
  "Vector_init E space (NtupleVec a) s =
     (if \<not> isinstance_dspace_Vector E (dspace space) s (NtupleVec a)
      then Inl (TypeError ''n-tuple {!r} not an instance of `{}.Vector`.'')
      else Inr \<lparr>v_class = Vector_of (d_class space), v_space = space, v_ntuple = a\<rparr>)"
| "Vector_init E space (Obj x) s =
     Inl (TypeError ''n-tuple {!r} not an instance of `{}.Vector`.'')"

text \<open>\<open>RawDiscretization.element(inp)\<close>; \<open>inp = None\<close> is the call without input.\<close>

definition element ::
  "('a, 'i) env \<Rightarrow> discretization \<Rightarrow> 'i pyobj option \<Rightarrow> 'a store
   \<Rightarrow> error + (vector \<times> 'a store)" where
  "element E self inp s =
     (case inp of
        None \<Rightarrow>
          (case ds_element E (dspace self) None s of
             Inl e \<Rightarrow> Inl e
           | Inr (nt, s1) \<Rightarrow>
              (case Vector_init E self nt s1 of Inl e \<Rightarrow> Inl e | Inr v \<Rightarrow> Inr (v, s1)))
      | Some x \<Rightarrow>
          if contains_dspace E (dspace self) s x
          then (case Vector_init E self x s of Inl e \<Rightarrow> Inl e | Inr v \<Rightarrow> Inr (v, s))
          else if us_contains E (uspace self) s x
          then
            (case restriction self of
               Inl e \<Rightarrow> Inl e
             | Inr restr \<Rightarrow>
                (case us_element E (uspace self) x s of
                   Inl e \<Rightarrow> Inl e
                 | Inr u \<Rightarrow>
                    (case op_call E restr u s of
                       Inl e \<Rightarrow> Inl e
                     | Inr (nt, s1) \<Rightarrow>
                        (case Vector_init E self nt s1 of
                           Inl e \<Rightarrow> Inl e
                         | Inr v \<Rightarrow> Inr (v, s1)))))
          else
            (case np_asarray E x (attr_dtype (dspace self)) (order self) s of
               Inl e \<Rightarrow> Inl e
             | Inr arr \<Rightarrow>
                (case ds_element E (dspace self) (Some arr) s of
                   Inl e \<Rightarrow> Inl e
                 | Inr (nt, s1) \<Rightarrow>
                    (case Vector_init E self nt s1 of
                       Inl e \<Rightarrow> Inl e
                     | Inr v \<Rightarrow> Inr (v, s1)))))"

text \<open>
  Modelled from the spec: \<open>NtuplesBase.equals\<close>, the \<open>super().equals(other)\<close> of
  \<open>RawDiscretization.equals\<close>, is not under src/. Two discretizations pass it when
  their dimension and dtype match.
\<close>

definition NtuplesBase_equals :: "discretization \<Rightarrow> discretization \<Rightarrow> bool" where
  "NtuplesBase_equals self other = (dim self = dim other \<and> dtype self = dtype other)"

text \<open>
  \<open>RawDiscretization.equals(other)\<close>: a chain of \<open>and\<close>, so a false conjunct ends
  the evaluation, and \<open>other.restriction\<close> is read before \<open>self.restriction\<close>.
\<close>

definition equals :: "discretization \<Rightarrow> discretization \<Rightarrow> error + bool" where
  "equals self other =
     (if \<not> NtuplesBase_equals self other then Inr False
      else if \<not> (uspace other = uspace self) then Inr False
      else if \<not> (dspace other = dspace self) then Inr False
      else
        (case restriction other of
           Inl e \<Rightarrow> Inl e
         | Inr ro \<Rightarrow>
            (case restriction self of
               Inl e \<Rightarrow> Inl e
             | Inr rs \<Rightarrow>
                if \<not> (ro = rs) then Inr False
                else
                  (case extension other of
                     Inl e \<Rightarrow> Inl e
                   | Inr xo \<Rightarrow>
                      (case extension self of
                         Inl e \<Rightarrow> Inl e
                       | Inr xs \<Rightarrow> Inr (xo = xs))))))"

subsection \<open>The linear-space primitives of Discretization\<close>

definition Discretization_zero ::
  "('a, 'i) env \<Rightarrow> discretization \<Rightarrow> 'a store \<Rightarrow> error + (vector \<times> 'a store)" where
  "Discretization_zero E self s =
     (case ds_zero E (dspace self) s of
        Inl e \<Rightarrow> Inl e
      | Inr (nt, s1) \<Rightarrow>
         (case Vector_init E self nt s1 of Inl e \<Rightarrow> Inl e | Inr v \<Rightarrow> Inr (v, s1)))"

definition Discretization_lincomb ::
  "('a, 'i) env \<Rightarrow> discretization \<Rightarrow> vector \<Rightarrow> 'a \<Rightarrow> vector \<Rightarrow> 'a \<Rightarrow> vector \<Rightarrow> 'a store
   \<Rightarrow> error + 'a store" where
  "Discretization_lincomb E self z a x b y s =
     ds_lincomb E (dspace self) (v_ntuple z) a (v_ntuple x) b (v_ntuple y) s"

definition Discretization_dist ::
  "('a, 'i) env \<Rightarrow> discretization \<Rightarrow> vector \<Rightarrow> vector \<Rightarrow> 'a store \<Rightarrow> error + 'a" where
  "Discretization_dist E self x y s = ds_dist E (dspace self) (v_ntuple x) (v_ntuple y) s"

definition Discretization_norm ::
  "('a, 'i) env \<Rightarrow> discretization \<Rightarrow> vector \<Rightarrow> 'a store \<Rightarrow> error + 'a" where
  "Discretization_norm E self x s = ds_norm E (dspace self) (v_ntuple x) s"

definition Discretization_inner ::
  "('a, 'i) env \<Rightarrow> discretization \<Rightarrow> vector \<Rightarrow> vector \<Rightarrow> 'a store \<Rightarrow> error + 'a" where
  "Discretization_inner E self x y s = ds_inner E (dspace self) (v_ntuple x) (v_ntuple y) s"

definition Discretization_multiply ::
  "('a, 'i) env \<Rightarrow> discretization \<Rightarrow> vector \<Rightarrow> vector \<Rightarrow> vector \<Rightarrow> 'a store
   \<Rightarrow> error + 'a store" where
  "Discretization_multiply E self z x y s =
     ds_multiply E (dspace self) (v_ntuple z) (v_ntuple x) (v_ntuple y) s"

text \<open>
  The linear combination as the specification writes it, on the entries:
  \<open>a\<cdot>x + b\<cdot>y\<close>, entry by entry.
\<close>

definition lincomb_entries :: "'a::{plus,times} \<Rightarrow> 'a list \<Rightarrow> 'a \<Rightarrow> 'a list \<Rightarrow> 'a list" where
  "lincomb_entries a xs b ys = map2 (\<lambda>u v. a * u + b * v) xs ys"

subsection \<open>Operations of an element\<close>

text \<open>
  Modelled from the spec: the methods of the data-space vector
  (\<open>NtuplesBase.Vector\<close> of \<open>odl.space.cartesian\<close>) are not under src/. \<open>copy\<close> is a
  full data copy into a new vector of the same space; two n-tuples are equal when
  they are of the same space and have the same entries; \<open>asarray\<close> gives the entries;
  indexed access reads and writes the entries of this vector, with an integer index
  (negative from the end) or a slice \<open>lo:hi\<close>, the assigned value being a single value
  or, for a slice, of the size of the slice.
\<close>

definition ntuple_copy :: "addr \<Rightarrow> 'a store \<Rightarrow> 'i pyobj \<times> 'a store" where
  "ntuple_copy a s = (NtupleVec (length s), s @ [s ! a])"

definition ntuple_equals :: "addr \<Rightarrow> addr \<Rightarrow> 'a store \<Rightarrow> bool" where
  "ntuple_equals a b s = (s ! a = s ! b)"

definition ntuple_asarray :: "addr \<Rightarrow> 'a store \<Rightarrow> 'a list" where
  "ntuple_asarray a s = nt_data (s ! a)"

datatype index = Index int | Slice int int

datatype 'a py_value = VectorValue vector | NtupleValue addr | Scalar 'a | ArrayLike "'a list"

definition clip_index :: "int \<Rightarrow> int \<Rightarrow> nat" where
  "clip_index n i = nat (if i < 0 then max 0 (n + i) else min i n)"

fun value_data :: "'a store \<Rightarrow> 'a py_value \<Rightarrow> 'a list" where
  "value_data s (VectorValue v) = nt_data (s ! v_ntuple v)"
| "value_data s (NtupleValue a) = nt_data (s ! a)"
| "value_data s (Scalar c) = [c]"
| "value_data s (ArrayLike xs) = xs"

fun assign_data :: "'a list \<Rightarrow> index \<Rightarrow> 'a list \<Rightarrow> error + 'a list" where
  "assign_data xs (Index i) vals =
     (let n = int (length xs); j = (if i < 0 then n + i else i) in
      if j < 0 \<or> n \<le> j then Inl (IndexError ''index out of range'')
      else (case vals of
              [c] \<Rightarrow> Inr (xs[nat j := c])
            | _ \<Rightarrow> Inl (ValueError ''setting an array element with a sequence.'')))"
| "assign_data xs (Slice lo hi) vals =
     (let n = int (length xs); l = clip_index n lo; h = max l (clip_index n hi) in
      if length vals = h - l then Inr (take l xs @ vals @ drop h xs)
      else (case vals of
              [c] \<Rightarrow> Inr (take l xs @ replicate (h - l) c @ drop h xs)
            | _ \<Rightarrow> Inl (ValueError ''could not broadcast input array'')))"

fun read_data :: "'a list \<Rightarrow> index \<Rightarrow> error + 'a list" where
  "read_data xs (Index i) =
     (let n = int (length xs); j = (if i < 0 then n + i else i) in
      if j < 0 \<or> n \<le> j then Inl (IndexError ''index out of range'')
      else Inr [xs ! nat j])"
| "read_data xs (Slice lo hi) =
     (let n = int (length xs); l = clip_index n lo; h = max l (clip_index n hi) in
      Inr (take (h - l) (drop l xs)))"

definition ntuple_getitem :: "addr \<Rightarrow> index \<Rightarrow> 'a store \<Rightarrow> error + 'a list" where
  "ntuple_getitem a indices s = read_data (nt_data (s ! a)) indices"

definition ntuple_setitem ::
  "addr \<Rightarrow> index \<Rightarrow> 'a py_value \<Rightarrow> 'a store \<Rightarrow> error + 'a store" where
  "ntuple_setitem a indices vals s =
     (case assign_data (nt_data (s ! a)) indices (value_data s vals) of
        Inl e \<Rightarrow> Inl e
      | Inr xs \<Rightarrow> Inr (s[a := (s ! a)\<lparr>nt_data := xs\<rparr>]))"

text \<open>The methods of \<open>RawDiscretization.Vector\<close>.\<close>

definition ntuple :: "vector \<Rightarrow> addr" where
  "ntuple self = v_ntuple self"

definition Vector_copy ::
  "('a, 'i) env \<Rightarrow> vector \<Rightarrow> 'a store \<Rightarrow> error + (vector \<times> 'a store)" where
  "Vector_copy E self s =
     (case ntuple_copy (ntuple self) s of
        (nt, s1) \<Rightarrow> element E (v_space self) (Some nt) s1)"

definition Vector_asarray :: "vector \<Rightarrow> 'a store \<Rightarrow> 'a list" where
  "Vector_asarray self s = ntuple_asarray (ntuple self) s"

definition Vector_equals :: "vector \<Rightarrow> vector \<Rightarrow> 'a store \<Rightarrow> bool" where
  "Vector_equals self other s =
     (v_class other = v_class self \<and> ntuple_equals (ntuple self) (ntuple other) s)"

definition Vector_getitem :: "vector \<Rightarrow> index \<Rightarrow> 'a store \<Rightarrow> error + 'a list" where
  "Vector_getitem self indices s = ntuple_getitem (ntuple self) indices s"

definition Vector_setitem ::
  "vector \<Rightarrow> index \<Rightarrow> 'a py_value \<Rightarrow> 'a store \<Rightarrow> error + 'a store" where
  "Vector_setitem self indices vals s =
     (case vals of
        VectorValue v \<Rightarrow> ntuple_setitem (ntuple self) indices (NtupleValue (ntuple v)) s
      | _ \<Rightarrow> ntuple_setitem (ntuple self) indices vals s)"

text \<open>
  An element as the discretization creates it: its n-tuple is an object of the store
  that belongs to the data space and is of the data space's vector class, and its
  class is the element class of its space.
\<close>

definition valid_vector :: "('a, 'i) env \<Rightarrow> vector \<Rightarrow> 'a store \<Rightarrow> bool" where
  "valid_vector E x s =
     (contains_dspace E (dspace (v_space x)) s (NtupleVec (ntuple x)) \<and>
      isinstance_dspace_Vector E (dspace (v_space x)) s (NtupleVec (ntuple x)) \<and>
      v_class x = Vector_of (d_class (v_space x)))"

section \<open>Operation wrappers for discretized-function elements (ufuncs.py)\<close>

text \<open>
  An element of a discretized function space has a space and an inner tensor. A value
  handed to a wrapper is such an element or any other object (a tensor, a scalar).
\<close>

record 't lp_elem =
  elem_space :: string
  elem_tensor :: 't

datatype 't lp_val = Elem "'t lp_elem" | Raw 't

text \<open>
  What the wrappers call outside of ufuncs.py: the operation \<open>name\<close> of the facade
  of a tensor, with the second operand where there is one and the output targets it
  is given; membership in and \<open>element\<close> of the discretized space; and the unpacking
  of a result into two.
\<close>

record ('t, 'st) lp_env =
  tensor_ufunc ::
    "string \<Rightarrow> 't \<Rightarrow> 't lp_val option \<Rightarrow> 't list \<Rightarrow> 'st \<Rightarrow> error + ('t \<times> 'st)"
  lp_contains :: "string \<Rightarrow> 't lp_val \<Rightarrow> bool"
  lp_element :: "string \<Rightarrow> 't option \<Rightarrow> 'st \<Rightarrow> error + ('t lp_elem \<times> 'st)"
  unpack2 :: "'t \<Rightarrow> error + ('t \<times> 't)"

text \<open>The attribute access \<open>.tensor\<close>: only an element has one.\<close>

fun get_tensor :: "'t lp_val \<Rightarrow> error + 't" where
  "get_tensor (Elem e) = Inr (elem_tensor e)"
| "get_tensor (Raw t) = Inl (AttributeError ''tensor'')"

text \<open>\<open>if out is None: out = self.elem.space.element()\<close>.\<close>

definition default_out ::
  "('t, 'st) lp_env \<Rightarrow> 't lp_elem \<Rightarrow> 't lp_val option \<Rightarrow> 'st \<Rightarrow> error + ('t lp_val \<times> 'st)" where
  "default_out E elem out s =
     (case out of
        Some ov \<Rightarrow> Inr (ov, s)
      | None \<Rightarrow>
         (case lp_element E (elem_space elem) None s of
            Inl e \<Rightarrow> Inl e
          | Inr (y, s1) \<Rightarrow> Inr (Elem y, s1)))"

definition discretelp_1_0 ::
  "('t, 'st) lp_env \<Rightarrow> string \<Rightarrow> 't lp_elem \<Rightarrow> 'st \<Rightarrow> error + ('t lp_val \<times> 'st)" where
  "discretelp_1_0 E name elem s =
     (case tensor_ufunc E name (elem_tensor elem) None [] s of
        Inl e \<Rightarrow> Inl e
      | Inr (r, s1) \<Rightarrow>
         (case lp_element E (elem_space elem) (Some r) s1 of
            Inl e \<Rightarrow> Inl e
          | Inr (y, s2) \<Rightarrow> Inr (Elem y, s2)))"

definition discretelp_1_1 ::
  "('t, 'st) lp_env \<Rightarrow> string \<Rightarrow> 't lp_elem \<Rightarrow> 't lp_val option \<Rightarrow> 'st
   \<Rightarrow> error + ('t lp_val \<times> 'st)" where
  "discretelp_1_1 E name elem out s =
     (case out of
        None \<Rightarrow>
          (case tensor_ufunc E name (elem_tensor elem) None [] s of
             Inl e \<Rightarrow> Inl e
           | Inr (r, s1) \<Rightarrow>
              (case lp_element E (elem_space elem) (Some r) s1 of
                 Inl e \<Rightarrow> Inl e
               | Inr (y, s2) \<Rightarrow> Inr (Elem y, s2)))
      | Some ov \<Rightarrow>
          (case get_tensor ov of
             Inl e \<Rightarrow> Inl e
           | Inr t \<Rightarrow>
              (case tensor_ufunc E name (elem_tensor elem) None [t] s of
                 Inl e \<Rightarrow> Inl e
               | Inr (r, s1) \<Rightarrow> Inr (ov, s1))))"

definition discretelp_1_2 ::
  "('t, 'st) lp_env \<Rightarrow> string \<Rightarrow> 't lp_elem \<Rightarrow> 't lp_val option \<Rightarrow> 't lp_val option \<Rightarrow> 'st
   \<Rightarrow> error + (('t lp_val \<times> 't lp_val) \<times> 'st)" where
  "discretelp_1_2 E name elem out1 out2 s =
     (case default_out E elem out1 s of
        Inl e \<Rightarrow> Inl e
      | Inr (o1, s1) \<Rightarrow>
         (case default_out E elem out2 s1 of
            Inl e \<Rightarrow> Inl e
          | Inr (o2, s2) \<Rightarrow>
             (case get_tensor o1 of
                Inl e \<Rightarrow> Inl e
              | Inr t1 \<Rightarrow>
                 (case get_tensor o2 of
                    Inl e \<Rightarrow> Inl e
                  | Inr t2 \<Rightarrow>
                     (case tensor_ufunc E name (elem_tensor elem) None [t1, t2] s2 of
                        Inl e \<Rightarrow> Inl e
                      | Inr (r, s3) \<Rightarrow>
                         (case unpack2 E r of
                            Inl e \<Rightarrow> Inl e
                          | Inr (y1, y2) \<Rightarrow> Inr ((o1, o2), s3)))))))"

text \<open>\<open>if x2 in self.elem.space: x2 = x2.tensor\<close>.\<close>

definition unwrap_x2 ::
  "('t, 'st) lp_env \<Rightarrow> 't lp_elem \<Rightarrow> 't lp_val \<Rightarrow> error + 't lp_val" where
  "unwrap_x2 E elem x2 =
     (if lp_contains E (elem_space elem) x2
      then (case get_tensor x2 of Inl e \<Rightarrow> Inl e | Inr t \<Rightarrow> Inr (Raw t))
      else Inr x2)"

definition discretelp_2_1 ::
  "('t, 'st) lp_env \<Rightarrow> string \<Rightarrow> 't lp_elem \<Rightarrow> 't lp_val \<Rightarrow> 't lp_val option \<Rightarrow> 'st
   \<Rightarrow> error + ('t lp_val \<times> 'st)" where
  "discretelp_2_1 E name elem x2 out s =
     (case unwrap_x2 E elem x2 of
        Inl e \<Rightarrow> Inl e
      | Inr x2' \<Rightarrow>
         (case out of
            None \<Rightarrow>
              (case tensor_ufunc E name (elem_tensor elem) (Some x2') [] s of
                 Inl e \<Rightarrow> Inl e
               | Inr (r, s1) \<Rightarrow>
                  (case lp_element E (elem_space elem) (Some r) s1 of
                     Inl e \<Rightarrow> Inl e
                   | Inr (y, s2) \<Rightarrow> Inr (Elem y, s2)))
          | Some ov \<Rightarrow>
              (case get_tensor ov of
                 Inl e \<Rightarrow> Inl e
               | Inr t \<Rightarrow>
                  (case tensor_ufunc E name (elem_tensor elem) (Some x2') [t] s of
                     Inl e \<Rightarrow> Inl e
                   | Inr (r, s1) \<Rightarrow> Inr (ov, s1)))))"

text \<open>
  The callable that \<open>wrap_ufunc_discretelp(name, n_in, n_out, doc)\<close> returns, one
  shape for each pair of arities it supports.
\<close>

datatype ('t, 'st) lp_wrapper =
    Wrapper_1_0 "'t lp_elem \<Rightarrow> 'st \<Rightarrow> error + ('t lp_val \<times> 'st)"
  | Wrapper_1_1 "'t lp_elem \<Rightarrow> 't lp_val option \<Rightarrow> 'st \<Rightarrow> error + ('t lp_val \<times> 'st)"
  | Wrapper_1_2 "'t lp_elem \<Rightarrow> 't lp_val option \<Rightarrow> 't lp_val option \<Rightarrow> 'st
       \<Rightarrow> error + (('t lp_val \<times> 't lp_val) \<times> 'st)"
  | Wrapper_2_1 "'t lp_elem \<Rightarrow> 't lp_val \<Rightarrow> 't lp_val option \<Rightarrow> 'st
       \<Rightarrow> error + ('t lp_val \<times> 'st)"

definition wrap_ufunc_discretelp ::
  "('t, 'st) lp_env \<Rightarrow> string \<Rightarrow> int \<Rightarrow> int \<Rightarrow> error + ('t, 'st) lp_wrapper" where
  "wrap_ufunc_discretelp E name n_in n_out =
     (if n_in = 1 then
        (if n_out = 0 then Inr (Wrapper_1_0 (discretelp_1_0 E name))
         else if n_out = 1 then Inr (Wrapper_1_1 (discretelp_1_1 E name))
         else if n_out = 2 then Inr (Wrapper_1_2 (discretelp_1_2 E name))
         else Inl (NotImplementedError []))
      else if n_in = 2 then
        (if n_out = 1 then Inr (Wrapper_2_1 (discretelp_2_1 E name))
         else Inl (NotImplementedError []))
      else Inl (NotImplementedError []))"

section \<open>Operation wrappers for product-space elements (ufuncs.py)\<close>

text \<open>
  An element of a product space: its space and its components in order. The second
  operand of a two-input operation is such an element or any other object.
\<close>

record 'c ps_elem =
  ps_space :: string
  ps_parts :: "'c list"

datatype 'c ps_val = ProductElem "'c ps_elem" | OtherVal 'c

text \<open>What a component's operation receives as second operand: a component, or the whole operand.\<close>

datatype 'c ps_arg = Part 'c | Whole "'c ps_val"

text \<open>
  The operation \<open>name\<close> of the facade of a component, with its second operand and
  its output targets; membership in and \<open>element\<close> of the product space.
\<close>

record ('c, 'st) ps_env =
  part_ufunc ::
    "string \<Rightarrow> 'c \<Rightarrow> 'c ps_arg option \<Rightarrow> 'c list \<Rightarrow> 'st \<Rightarrow> error + ('c \<times> 'st)"
  ps_contains :: "string \<Rightarrow> 'c ps_val \<Rightarrow> bool"
  ps_element :: "string \<Rightarrow> 'c list option \<Rightarrow> 'st \<Rightarrow> error + ('c ps_elem \<times> 'st)"

text \<open>
  A list comprehension or a \<open>for\<close> loop of calls: in order, each on the state the one
  before left, stopping at the first error.
\<close>

fun map_calls :: "('a \<Rightarrow> 'st \<Rightarrow> error + ('r \<times> 'st)) \<Rightarrow> 'a list \<Rightarrow> 'st \<Rightarrow> error + ('r list \<times> 'st)" where
  "map_calls f [] s = Inr ([], s)"
| "map_calls f (x # xs) s =
     (case f x s of
        Inl e \<Rightarrow> Inl e
      | Inr (r, s1) \<Rightarrow>
         (case map_calls f xs s1 of
            Inl e \<Rightarrow> Inl e
          | Inr (rs, s2) \<Rightarrow> Inr (r # rs, s2)))"

text \<open>Iterating over the second operand: a product element gives its components.\<close>

fun iter_parts :: "'c ps_val \<Rightarrow> error + 'c list" where
  "iter_parts (ProductElem e) = Inr (ps_parts e)"
| "iter_parts (OtherVal c) = Inl (TypeError ''object is not iterable'')"

definition ps_default_out ::
  "('c, 'st) ps_env \<Rightarrow> 'c ps_elem \<Rightarrow> 'c ps_elem option \<Rightarrow> 'st \<Rightarrow> error + ('c ps_elem \<times> 'st)" where
  "ps_default_out E elem out s =
     (case out of
        Some ov \<Rightarrow> Inr (ov, s)
      | None \<Rightarrow> ps_element E (ps_space elem) None s)"

definition productspace_1_0 ::
  "('c, 'st) ps_env \<Rightarrow> string \<Rightarrow> 'c ps_elem \<Rightarrow> 'st \<Rightarrow> error + ('c ps_elem \<times> 'st)" where
  "productspace_1_0 E name elem s =
     (case map_calls (\<lambda>x. part_ufunc E name x None []) (ps_parts elem) s of
        Inl e \<Rightarrow> Inl e
      | Inr (result, s1) \<Rightarrow> ps_element E (ps_space elem) (Some result) s1)"

definition productspace_1_1 ::
  "('c, 'st) ps_env \<Rightarrow> string \<Rightarrow> 'c ps_elem \<Rightarrow> 'c ps_elem option \<Rightarrow> 'st
   \<Rightarrow> error + ('c ps_elem \<times> 'st)" where
  "productspace_1_1 E name elem out s =
     (case out of
        None \<Rightarrow>
          (case map_calls (\<lambda>x. part_ufunc E name x None []) (ps_parts elem) s of
             Inl e \<Rightarrow> Inl e
           | Inr (result, s1) \<Rightarrow> ps_element E (ps_space elem) (Some result) s1)
      | Some ov \<Rightarrow>
          (case map_calls (\<lambda>(x, out_x). part_ufunc E name x None [out_x])
                  (zip (ps_parts elem) (ps_parts ov)) s of
             Inl e \<Rightarrow> Inl e
           | Inr (rs, s1) \<Rightarrow> Inr (ov, s1)))"

definition productspace_1_2 ::
  "('c, 'st) ps_env \<Rightarrow> string \<Rightarrow> 'c ps_elem \<Rightarrow> 'c ps_elem option \<Rightarrow> 'c ps_elem option \<Rightarrow> 'st
   \<Rightarrow> error + (('c ps_elem \<times> 'c ps_elem) \<times> 'st)" where
  "productspace_1_2 E name elem out1 out2 s =
     (case ps_default_out E elem out1 s of
        Inl e \<Rightarrow> Inl e
      | Inr (o1, s1) \<Rightarrow>
         (case ps_default_out E elem out2 s1 of
            Inl e \<Rightarrow> Inl e
          | Inr (o2, s2) \<Rightarrow>
             (case map_calls (\<lambda>(x, out1_x, out2_x). part_ufunc E name x None [out1_x, out2_x])
                     (zip (ps_parts elem) (zip (ps_parts o1) (ps_parts o2))) s2 of
                Inl e \<Rightarrow> Inl e
              | Inr (rs, s3) \<Rightarrow> Inr ((o1, o2), s3))))"

definition productspace_2_1 ::
  "('c, 'st) ps_env \<Rightarrow> string \<Rightarrow> 'c ps_elem \<Rightarrow> 'c ps_val \<Rightarrow> 'c ps_elem option \<Rightarrow> 'st
   \<Rightarrow> error + ('c ps_elem \<times> 'st)" where
  "productspace_2_1 E name elem x2 out s =
     (if ps_contains E (ps_space elem) x2 then
        (case iter_parts x2 of
           Inl e \<Rightarrow> Inl e
         | Inr x2_parts \<Rightarrow>
            (case out of
               None \<Rightarrow>
                 (case map_calls (\<lambda>(x, x2p). part_ufunc E name x (Some (Part x2p)) [])
                         (zip (ps_parts elem) x2_parts) s of
                    Inl e \<Rightarrow> Inl e
                  | Inr (result, s1) \<Rightarrow> ps_element E (ps_space elem) (Some result) s1)
             | Some ov \<Rightarrow>
                 (case map_calls (\<lambda>(x, x2p, outp). part_ufunc E name x (Some (Part x2p)) [outp])
                         (zip (ps_parts elem) (zip x2_parts (ps_parts ov))) s of
                    Inl e \<Rightarrow> Inl e
                  | Inr (rs, s1) \<Rightarrow> Inr (ov, s1))))
      else
        (case out of
           None \<Rightarrow>
             (case map_calls (\<lambda>x. part_ufunc E name x (Some (Whole x2)) []) (ps_parts elem) s of
                Inl e \<Rightarrow> Inl e
              | Inr (result, s1) \<Rightarrow> ps_element E (ps_space elem) (Some result) s1)
         | Some ov \<Rightarrow>
             (case map_calls (\<lambda>(x, outp). part_ufunc E name x (Some (Whole x2)) [outp])
                     (zip (ps_parts elem) (ps_parts ov)) s of
                Inl e \<Rightarrow> Inl e
              | Inr (rs, s1) \<Rightarrow> Inr (ov, s1))))"

datatype ('c, 'st) ps_wrapper =
    PWrapper_1_0 "'c ps_elem \<Rightarrow> 'st \<Rightarrow> error + ('c ps_elem \<times> 'st)"
  | PWrapper_1_1 "'c ps_elem \<Rightarrow> 'c ps_elem option \<Rightarrow> 'st \<Rightarrow> error + ('c ps_elem \<times> 'st)"
  | PWrapper_1_2 "'c ps_elem \<Rightarrow> 'c ps_elem option \<Rightarrow> 'c ps_elem option \<Rightarrow> 'st
       \<Rightarrow> error + (('c ps_elem \<times> 'c ps_elem) \<times> 'st)"
  | PWrapper_2_1 "'c ps_elem \<Rightarrow> 'c ps_val \<Rightarrow> 'c ps_elem option \<Rightarrow> 'st
       \<Rightarrow> error + ('c ps_elem \<times> 'st)"

definition wrap_ufunc_productspace ::
  "('c, 'st) ps_env \<Rightarrow> string \<Rightarrow> int \<Rightarrow> int \<Rightarrow> error + ('c, 'st) ps_wrapper" where
  "wrap_ufunc_productspace E name n_in n_out =
     (if n_in = 1 then
        (if n_out = 0 then Inr (PWrapper_1_0 (productspace_1_0 E name))
         else if n_out = 1 then Inr (PWrapper_1_1 (productspace_1_1 E name))
         else if n_out = 2 then Inr (PWrapper_1_2 (productspace_1_2 E name))
         else Inl (NotImplementedError []))
      else if n_in = 2 then
        (if n_out = 1 then Inr (PWrapper_2_1 (productspace_2_1 E name))
         else Inl (NotImplementedError []))
      else Inl (NotImplementedError []))"

section \<open>Reduction wrappers for Numpy-based tensors (ufuncs.py)\<close>

text \<open>
  The weighting of a tensor space: the two classes that \<open>wrap_reduction_numpy\<close>
  imports from \<open>odl.space.npy_tensors\<close>, with the array and the exponent they are
  built from, and any other weighting object.
\<close>

datatype ('e, 'w) weighting =
    NumpyTensorSpaceArrayWeighting 'w "'e option"
  | NumpyTensorSpaceNoWeighting "'e option"
  | OtherWeighting string

fun isinstance_ArrayWeighting :: "('e, 'w) weighting \<Rightarrow> bool" where
  "isinstance_ArrayWeighting (NumpyTensorSpaceArrayWeighting w p) = True"
| "isinstance_ArrayWeighting (NumpyTensorSpaceNoWeighting p) = False"
| "isinstance_ArrayWeighting (OtherWeighting n) = False"

text \<open>
  A tensor space as the wrapper reads it: its class, and what
  \<open>getattr(space, 'exponent', None)\<close> and \<open>getattr(space, 'weighting', None)\<close> give.
  A tensor has a space, a dtype, an ordering and its data.
\<close>

record ('e, 'w) tensor_space =
  ts_type :: string
  ts_exponent :: "'e option"
  ts_weighting :: "('e, 'w) weighting option"

record ('e, 'w, 'd) tensor =
  t_space :: "('e, 'w) tensor_space"
  t_dtype :: string
  t_order :: string
  t_data :: 'd

datatype kwval = IntVal int | BoolVal bool | StrVal string | TupleVal "int list"

text \<open>What the numpy function returns: a scalar, or an array with its shape.\<close>

datatype ('a, 'd) np_result = ScalarResult 'a | ArrayResult "nat list" 'd

text \<open>
  The arguments of the call \<open>out_space_constr(out_arr.shape, dtype, self.elem.order,
  **extra_args)\<close>: a keyword of \<open>extra_args\<close> that is not set is \<open>None\<close>.
\<close>

record ('e, 'w) space_args =
  arg_shape :: "nat list"
  arg_dtype :: kwval
  arg_order :: string
  kw_exponent :: "'e option"
  kw_weighting :: "('e, 'w) weighting option"

text \<open>
  The numpy function \<open>name\<close>, called on the element with the keyword arguments and
  the \<open>out\<close> target where there is one; the constructor of a space class; and
  \<open>element\<close> of a tensor space.
\<close>

record ('a, 'e, 'w, 'd, 'st) np_env =
  np_function ::
    "string \<Rightarrow> ('e, 'w, 'd) tensor \<Rightarrow> (string \<rightharpoonup> kwval) \<Rightarrow> 'd option \<Rightarrow> 'st
     \<Rightarrow> error + (('a, 'd) np_result \<times> 'st)"
  space_constr ::
    "string \<Rightarrow> ('e, 'w) space_args \<Rightarrow> 'st \<Rightarrow> error + (('e, 'w) tensor_space \<times> 'st)"
  space_element ::
    "('e, 'w) tensor_space \<Rightarrow> 'd \<Rightarrow> 'st \<Rightarrow> error + (('e, 'w, 'd) tensor \<times> 'st)"

datatype ('a, 'e, 'w, 'd) reduction_result =
    ReturnScalar 'a
  | ReturnElement "('e, 'w, 'd) tensor"
  | ReturnOut "('e, 'w, 'd) tensor"

text \<open>
  The keyword arguments as the wrapper passes them on: \<open>a\<close>, \<open>b\<close> and \<open>out\<close>
  removed, \<open>axis\<close> set when it is given, \<open>keepdims\<close> set.
\<close>

definition reduction_kwargs ::
  "kwval option \<Rightarrow> bool \<Rightarrow> (string \<rightharpoonup> kwval) \<Rightarrow> (string \<rightharpoonup> kwval)" where
  "reduction_kwargs axis keepdims kwargs =
     (let kw1 = kwargs(''a'' := None, ''b'' := None, ''out'' := None);
          kw2 = (case axis of None \<Rightarrow> kw1 | Some ax \<Rightarrow> kw1(''axis'' \<mapsto> ax))
      in kw2(''keepdims'' \<mapsto> BoolVal keepdims))"

text \<open>The wrapper that \<open>wrap_reduction_numpy(name, doc)\<close> returns.\<close>

definition wrap_reduction_numpy ::
  "('a, 'e, 'w, 'd, 'st) np_env \<Rightarrow> string \<Rightarrow> ('e, 'w, 'd) tensor \<Rightarrow> kwval option
   \<Rightarrow> ('e, 'w, 'd) tensor option \<Rightarrow> bool \<Rightarrow> (string \<rightharpoonup> kwval) \<Rightarrow> 'st
   \<Rightarrow> error + (('a, 'e, 'w, 'd) reduction_result \<times> 'st)" where
  "wrap_reduction_numpy E name elem axis out keepdims kwargs0 s =
     (let kwargs = reduction_kwargs axis keepdims kwargs0;
          dtype_v = (case kwargs ''dtype'' of Some v \<Rightarrow> v | None \<Rightarrow> StrVal (t_dtype elem))
      in case out of
           None \<Rightarrow>
             (case np_function E name elem kwargs None s of
                Inl e \<Rightarrow> Inl e
              | Inr (ScalarResult v, s1) \<Rightarrow> Inr (ReturnScalar v, s1)
              | Inr (ArrayResult shape out_arr, s1) \<Rightarrow>
                 (let exponent = ts_exponent (t_space elem);
                      weighting = ts_weighting (t_space elem);
                      extra_weighting =
                        (case weighting of
                           None \<Rightarrow> None
                         | Some w \<Rightarrow>
                            Some (if isinstance_ArrayWeighting w
                                  then NumpyTensorSpaceNoWeighting exponent else w))
                  in case space_constr E (ts_type (t_space elem))
                            \<lparr>arg_shape = shape, arg_dtype = dtype_v, arg_order = t_order elem,
                             kw_exponent = exponent, kw_weighting = extra_weighting\<rparr> s1 of
                       Inl e \<Rightarrow> Inl e
                     | Inr (out_space, s2) \<Rightarrow>
                        (case space_element E out_space out_arr s2 of
                           Inl e \<Rightarrow> Inl e
                         | Inr (y, s3) \<Rightarrow> Inr (ReturnElement y, s3))))
         | Some ov \<Rightarrow>
             (case np_function E name elem kwargs (Some (t_data ov)) s of
                Inl e \<Rightarrow> Inl e
              | Inr (r, s1) \<Rightarrow> Inr (ReturnOut ov, s1)))"

text \<open>
  The weighting that the specification asks to carry over: an array weighting is
  replaced by the no-op weighting with the space's exponent, any other weighting is
  kept.
\<close>

fun downgraded :: "'e option \<Rightarrow> ('e, 'w) weighting \<Rightarrow> ('e, 'w) weighting" where
  "downgraded p (NumpyTensorSpaceArrayWeighting w q) = NumpyTensorSpaceNoWeighting p"
| "downgraded p (NumpyTensorSpaceNoWeighting q) = NumpyTensorSpaceNoWeighting q"
| "downgraded p (OtherWeighting n) = OtherWeighting n"

section \<open>Concrete values\<close>

text \<open>
  The spaces of the scenario of the specification: the real and complex $L^2$ spaces
  on the unit interval, the data spaces \<open>Rn(4)\<close> and \<open>Cn(4)\<close>, and a plain set
  without a field.
\<close>

definition L2_real :: space where
  "L2_real = \<lparr>sp_ident = ''L2(Interval(0, 1))'', isinstance_Set = True,
     isinstance_LinearSpace = True, isinstance_L2 = True, isinstance_NtuplesBase = False,
     isinstance_FnBase = False, attr_field = Some RealNumbers, attr_dim = 0, attr_dtype = []\<rparr>"

definition L2_complex :: space where
  "L2_complex = L2_real\<lparr>sp_ident := ''L2(Interval(0, 1), ComplexNumbers())'',
     attr_field := Some ComplexNumbers\<rparr>"

definition plain_set :: space where
  "plain_set = \<lparr>sp_ident = ''Strings(3)'', isinstance_Set = True,
     isinstance_LinearSpace = False, isinstance_L2 = False, isinstance_NtuplesBase = False,
     isinstance_FnBase = False, attr_field = None, attr_dim = 0, attr_dtype = []\<rparr>"

definition Rn4 :: space where
  "Rn4 = \<lparr>sp_ident = ''Rn(4)'', isinstance_Set = True,
     isinstance_LinearSpace = True, isinstance_L2 = False, isinstance_NtuplesBase = True,
     isinstance_FnBase = True, attr_field = Some RealNumbers, attr_dim = 4,
     attr_dtype = ''float64''\<rparr>"

definition Cn4 :: space where
  "Cn4 = Rn4\<lparr>sp_ident := ''Cn(4)'', attr_field := Some ComplexNumbers,
     attr_dtype := ''complex128''\<rparr>"

text \<open>
  A backend with integer entries, for evaluating the definitions: a vector belongs to
  the data space it was created in; new vectors are appended to the store; the
  abstract space has the function named \<open>f\<close> and, to have an object in both spaces,
  the vector at address 0; an operator writes the samples 1, 2, 3, 4; the array
  coercion reads the text of a list; the metric primitives are those of integer
  tuples.
\<close>

definition alloc :: "space \<Rightarrow> int list \<Rightarrow> int store \<Rightarrow> error + (string pyobj \<times> int store)" where
  "alloc ds xs s = Inr (NtupleVec (length s), s @ [\<lparr>nt_space = ds, nt_data = xs\<rparr>])"

definition write_data :: "addr \<Rightarrow> int list \<Rightarrow> int store \<Rightarrow> error + int store" where
  "write_data z xs s = Inr (s[z := (s ! z)\<lparr>nt_data := xs\<rparr>])"

definition int_backend :: "(int, string) env" where
  "int_backend =
     \<lparr>ds_contains = (\<lambda>ds nt. nt_space nt = ds),
      ds_isvector = (\<lambda>ds nt. isinstance_FnBase (nt_space nt) = isinstance_FnBase ds),
      ds_element = (\<lambda>ds arr s.
         case arr of
           None \<Rightarrow> alloc ds (replicate (nat (attr_dim ds)) 0) s
         | Some xs \<Rightarrow>
            if int (length xs) = attr_dim ds then alloc ds xs s
            else Inl (ValueError ''input shape not compatible with the space'')),
      us_contains = (\<lambda>u s x. x = Obj ''f'' \<or> x = NtupleVec 0),
      us_element = (\<lambda>u x s. Inr x),
      op_call = (\<lambda>r x s. alloc (op_range r) [1, 2, 3, 4] s),
      np_asarray = (\<lambda>x dt ord s.
         if x = Obj ''[5, 6, 7, 8]'' then Inr [5, 6, 7, 8]
         else Inl (ValueError ''could not convert input to an array'')),
      ds_zero = (\<lambda>ds s. alloc ds (replicate (nat (attr_dim ds)) 0) s),
      ds_lincomb = (\<lambda>ds z a x b y s.
         write_data z (map2 (\<lambda>u v. a * u + b * v) (nt_data (s ! x)) (nt_data (s ! y))) s),
      ds_dist = (\<lambda>ds x y s.
         Inr (sum_list (map2 (\<lambda>u v. \<bar>u - v\<bar>) (nt_data (s ! x)) (nt_data (s ! y))))),
      ds_norm = (\<lambda>ds x s. Inr (sum_list (map abs (nt_data (s ! x))))),
      ds_inner = (\<lambda>ds x y s.
         Inr (sum_list (map2 (\<lambda>u v. u * v) (nt_data (s ! x)) (nt_data (s ! y))))),
      ds_multiply = (\<lambda>ds z x y s.
         write_data z (map2 (\<lambda>u v. u * v) (nt_data (s ! x)) (nt_data (s ! y))) s)\<rparr>"

definition sampling :: operator where
  "sampling = \<lparr>op_ident = ''GridCollocation'', isinstance_Operator = True,
     isinstance_LinearOperator = True, op_domain = L2_real, op_range = Rn4,
     op_order = Some ''C''\<rparr>"

definition interpolation :: operator where
  "interpolation = \<lparr>op_ident = ''NearestInterpolation'', isinstance_Operator = True,
     isinstance_LinearOperator = True, op_domain = Rn4, op_range = L2_real,
     op_order = Some ''C''\<rparr>"

definition operators :: "nat list operators_module" where
  "operators =
     \<lparr>GridCollocation = (\<lambda>l2 g ds ord.
         Inr \<lparr>op_ident = ''GridCollocation'', isinstance_Operator = True,
              isinstance_LinearOperator = True, op_domain = l2, op_range = ds,
              op_order = Some ord\<rparr>),
      NearestInterpolation = (\<lambda>l2 g ds ord.
         Inr \<lparr>op_ident = ''NearestInterpolation'', isinstance_Operator = True,
              isinstance_LinearOperator = True, op_domain = ds, op_range = l2,
              op_order = Some ord\<rparr>)\<rparr>"

text \<open>The discretizations of the real $L^2$ space by \<open>Rn(4)\<close>, with and without operators.\<close>

definition discr_bare :: discretization where
  "discr_bare = \<lparr>d_class = DiscretizationC, p_dim = 4, p_dtype = ''float64'',
     p_uspace = L2_real, p_dspace = Rn4, p_restriction = None, p_extension = None,
     p_order = ''C''\<rparr>"

definition discr_full :: discretization where
  "discr_full = discr_bare\<lparr>d_class := DiscreteL2C, p_restriction := Some sampling,
     p_extension := Some interpolation\<rparr>"

text \<open>A store with a vector of \<open>Rn(4)\<close> at address 0 and a vector of \<open>Cn(4)\<close> at address 1.\<close>

definition store0 :: "int store" where
  "store0 = [\<lparr>nt_space = Rn4, nt_data = [1, 2, 3, 4]\<rparr>,
             \<lparr>nt_space = Cn4, nt_data = [0, 0, 0, 0]\<rparr>]"

text \<open>A store with three vectors of \<open>Rn(4)\<close>, and the element of \<open>discr_full\<close> at an address.\<close>

definition store1 :: "int store" where
  "store1 = [\<lparr>nt_space = Rn4, nt_data = [1, 2, 3, 4]\<rparr>,
             \<lparr>nt_space = Rn4, nt_data = [10, 20, 30, 40]\<rparr>,
             \<lparr>nt_space = Rn4, nt_data = [0, 0, 0, 0]\<rparr>]"

definition vec_at :: "addr \<Rightarrow> vector" where
  "vec_at a = \<lparr>v_class = Discretization_Vector, v_space = discr_full, v_ntuple = a\<rparr>"

text \<open>
  A tensor backend on integer entries, its state the list of the arrays: a raw value
  is an array by its address, a number, or a pair. \<open>modf\<close> gives the remainder and
  the quotient by ten of every entry, every other operation negates (one input) or
  adds (two inputs); results go to the targets given, or to new arrays.
\<close>

datatype raw = Ref addr | Num int | Both raw raw

fun operand :: "int list list \<Rightarrow> nat \<Rightarrow> raw lp_val \<Rightarrow> int list" where
  "operand s n (Raw (Ref a)) = s ! a"
| "operand s n (Raw (Num c)) = replicate n c"
| "operand s n (Raw (Both a b)) = []"
| "operand s n (Elem e) = []"

definition array_ufunc ::
  "string \<Rightarrow> raw \<Rightarrow> raw lp_val option \<Rightarrow> raw list \<Rightarrow> int list list
   \<Rightarrow> error + (raw \<times> int list list)" where
  "array_ufunc name t x2 outs s =
     (case t of
        Ref a \<Rightarrow>
          if name = ''modf'' then
            (let r1 = map (\<lambda>v. v mod 10) (s ! a); r2 = map (\<lambda>v. v div 10) (s ! a) in
             case outs of
               [Ref o1, Ref o2] \<Rightarrow> Inr (Both (Ref o1) (Ref o2), s[o1 := r1, o2 := r2])
             | _ \<Rightarrow> Inr (Both (Ref (length s)) (Ref (Suc (length s))), s @ [r1, r2]))
          else
            (let r = (case x2 of
                        None \<Rightarrow> map uminus (s ! a)
                      | Some v \<Rightarrow> map2 (+) (s ! a) (operand s (length (s ! a)) v)) in
             case outs of
               [Ref o1] \<Rightarrow> Inr (Ref o1, s[o1 := r])
             | _ \<Rightarrow> Inr (Ref (length s), s @ [r]))
      | _ \<Rightarrow> Inl (TypeError ''not a tensor''))"

definition array_backend :: "(raw, int list list) lp_env" where
  "array_backend =
     \<lparr>tensor_ufunc = array_ufunc,
      lp_contains = (\<lambda>sp v. case v of Elem e \<Rightarrow> elem_space e = sp | Raw t \<Rightarrow> False),
      lp_element = (\<lambda>sp inp s.
         case inp of
           None \<Rightarrow> Inr (\<lparr>elem_space = sp, elem_tensor = Ref (length s)\<rparr>, s @ [[]])
         | Some t \<Rightarrow> Inr (\<lparr>elem_space = sp, elem_tensor = t\<rparr>, s)),
      unpack2 = (\<lambda>t. case t of
         Both a b \<Rightarrow> Inr (a, b)
       | _ \<Rightarrow> Inl (TypeError ''cannot unpack non-iterable object''))\<rparr>"

definition lp_at :: "addr \<Rightarrow> raw lp_elem" where
  "lp_at a = \<lparr>elem_space = ''X'', elem_tensor = Ref a\<rparr>"

text \<open>
  Product elements with integer components: a component negates (one input) or adds
  its second operand (two inputs), and leaves the state as it is.
\<close>

definition part_backend :: "(int, nat) ps_env" where
  "part_backend =
     \<lparr>part_ufunc = (\<lambda>name x arg outs s.
         case arg of
           None \<Rightarrow> Inr (- x, s)
         | Some (Part y) \<Rightarrow> Inr (x + y, s)
         | Some (Whole (OtherVal c)) \<Rightarrow> Inr (x + c, s)
         | Some (Whole (ProductElem e)) \<Rightarrow> Inl (TypeError ''unsupported operand type'')),
      ps_contains = (\<lambda>sp v. case v of ProductElem e \<Rightarrow> ps_space e = sp | OtherVal c \<Rightarrow> False),
      ps_element = (\<lambda>sp inp s.
         case inp of
           None \<Rightarrow> Inr (\<lparr>ps_space = sp, ps_parts = []\<rparr>, s)
         | Some rs \<Rightarrow> Inr (\<lparr>ps_space = sp, ps_parts = rs\<rparr>, s))\<rparr>"

definition P :: "int list \<Rightarrow> int ps_elem" where
  "P xs = \<lparr>ps_space = ''X x X'', ps_parts = xs\<rparr>"

text \<open>
  A reduction backend: the sum of the entries, a scalar unless \<open>keepdims\<close> is set or
  an \<open>out\<close> target is given; a constructed space has the exponent and the weighting
  it is given.
\<close>

definition sum_backend :: "(int, int, int list, addr, int list list) np_env" where
  "sum_backend =
     \<lparr>np_function = (\<lambda>name elem kwargs target s.
         let total = sum_list (s ! t_data elem) in
         case target of
           Some a \<Rightarrow> Inr (ArrayResult [1] a, s[a := [total]])
         | None \<Rightarrow>
            if kwargs ''keepdims'' = Some (BoolVal True)
            then Inr (ArrayResult [1] (length s), s @ [[total]])
            else Inr (ScalarResult total, s)),
      space_constr = (\<lambda>ty args s.
         Inr (\<lparr>ts_type = ty, ts_exponent = kw_exponent args,
               ts_weighting = kw_weighting args\<rparr>, s)),
      space_element = (\<lambda>sp arr s.
         Inr (\<lparr>t_space = sp, t_dtype = ''int64'', t_order = ''C'', t_data = arr\<rparr>, s))\<rparr>"

definition weighted_space :: "(int, int list) tensor_space" where
  "weighted_space = \<lparr>ts_type = ''NumpyTensorSpace'', ts_exponent = Some 2,
     ts_weighting = Some (NumpyTensorSpaceArrayWeighting [1, 2, 3] (Some 2))\<rparr>"

definition weighted_tensor :: "addr \<Rightarrow> (int, int list, addr) tensor" where
  "weighted_tensor a = \<lparr>t_space = weighted_space, t_dtype = ''int64'', t_order = ''C'',
     t_data = a\<rparr>"

section \<open>Properties of the resolver\<close>

lemma dspace_type_unrecognized:
  "impl \<noteq> ''numpy'' \<Longrightarrow> impl \<noteq> ''cuda'' \<Longrightarrow>
   dspace_type m space impl = Inl (ValueError ''implementation type {} not understood.'')"
  by (simp add: dspace_type_def)

lemma dspace_type_unavailable:
  "dspace_type (import_cuda False) space ''cuda'' =
     Inl (ValueError ''CUDA implementation not available.'')"
  by (simp add: dspace_type_def import_cuda_def)

lemma dspace_type_numpy:
  "f \<in> {Some RealNumbers, Some ComplexNumbers, None} \<Longrightarrow> attr_field space = f \<Longrightarrow>
   dspace_type m space ''numpy'' =
     (case table_entry ''numpy'' f of
        None \<Rightarrow> Inl (NotImplementedError
          ''no corresponding data space available for space {!r} and implementation {!r}.'')
      | Some t \<Rightarrow> Inr t)"
  by (auto simp: dspace_type_def spacetype_map_def)

lemma dspace_type_cuda:
  "f \<in> {Some RealNumbers, Some ComplexNumbers, None} \<Longrightarrow> attr_field space = f \<Longrightarrow>
   dspace_type (import_cuda True) space ''cuda'' =
     (case table_entry ''cuda'' f of
        None \<Rightarrow> Inl (NotImplementedError
          ''no corresponding data space available for space {!r} and implementation {!r}.'')
      | Some t \<Rightarrow> Inr t)"
  by (auto simp: dspace_type_def spacetype_map_def import_cuda_def)

text \<open>
  C4. The resolver is a function of the template space, the backend identifier and
  the outcome of the CUDA import, with three failure kinds. An identifier other than
  \<open>numpy\<close> and \<open>cuda\<close> fails with the not-understood \<open>ValueError\<close> for every
  template space; \<open>cuda\<close> when the import failed fails with the not-available
  \<open>ValueError\<close> for every template space, whatever its field; and for a recognized,
  available backend and a field class among real, complex and none, the result is
  the table entry, or the \<open>NotImplementedError\<close> where the entry is missing (complex
  on \<open>cuda\<close>).
\<close>

theorem dspace_type_three_failure_kinds:
  "(impl \<noteq> ''numpy'' \<and> impl \<noteq> ''cuda'' \<longrightarrow>
      dspace_type (import_cuda ok) space impl =
        Inl (ValueError ''implementation type {} not understood.'')) \<and>
   (impl = ''cuda'' \<and> \<not> ok \<longrightarrow>
      dspace_type (import_cuda ok) space impl =
        Inl (ValueError ''CUDA implementation not available.'')) \<and>
   ((impl = ''numpy'' \<or> (impl = ''cuda'' \<and> ok)) \<and>
    attr_field space \<in> {Some RealNumbers, Some ComplexNumbers, None} \<longrightarrow>
      dspace_type (import_cuda ok) space impl =
        (case table_entry impl (attr_field space) of
           None \<Rightarrow> Inl (NotImplementedError
             ''no corresponding data space available for space {!r} and implementation {!r}.'')
         | Some t \<Rightarrow> Inr t)) \<and>
   table_entry ''cuda'' (Some ComplexNumbers) = None"
proof (intro conjI impI)
  assume "impl \<noteq> ''numpy'' \<and> impl \<noteq> ''cuda''"
  then show "dspace_type (import_cuda ok) space impl =
      Inl (ValueError ''implementation type {} not understood.'')"
    by (simp add: dspace_type_unrecognized)
next
  assume "impl = ''cuda'' \<and> \<not> ok"
  then show "dspace_type (import_cuda ok) space impl =
      Inl (ValueError ''CUDA implementation not available.'')"
    by (simp add: dspace_type_unavailable)
next
  assume a: "(impl = ''numpy'' \<or> (impl = ''cuda'' \<and> ok)) \<and>
    attr_field space \<in> {Some RealNumbers, Some ComplexNumbers, None}"
  then consider "impl = ''numpy''" | "impl = ''cuda''" "ok" by blast
  then show "dspace_type (import_cuda ok) space impl =
        (case table_entry impl (attr_field space) of
           None \<Rightarrow> Inl (NotImplementedError
             ''no corresponding data space available for space {!r} and implementation {!r}.'')
         | Some t \<Rightarrow> Inr t)"
  proof cases
    case 1
    with a show ?thesis using dspace_type_numpy [of "attr_field space" space "import_cuda ok"] by simp
  next
    case 2
    with a show ?thesis using dspace_type_cuda [of "attr_field space" space] by simp
  qed
next
  show "table_entry ''cuda'' (Some ComplexNumbers) = None" by simp
qed

theorem dspace_type_three_failure_kinds_witness:
  "dspace_type (import_cuda True) L2_real ''opencl'' =
     Inl (ValueError ''implementation type {} not understood.'') \<and>
   dspace_type (import_cuda False) L2_complex ''cuda'' =
     Inl (ValueError ''CUDA implementation not available.'') \<and>
   dspace_type (import_cuda True) L2_complex ''cuda'' =
     Inl (NotImplementedError
       ''no corresponding data space available for space {!r} and implementation {!r}.'') \<and>
   dspace_type (import_cuda True) L2_real ''cuda'' = Inr CudaRn \<and>
   dspace_type (import_cuda False) L2_complex ''numpy'' = Inr Cn \<and>
   dspace_type (import_cuda False) plain_set ''numpy'' = Inr Ntuples"
  using dspace_type_three_failure_kinds [of "''opencl''" True L2_real]
    dspace_type_three_failure_kinds [of "''cuda''" False L2_complex]
    dspace_type_three_failure_kinds [of "''cuda''" True L2_complex]
    dspace_type_three_failure_kinds [of "''cuda''" True L2_real]
    dspace_type_three_failure_kinds [of "''numpy''" False L2_complex]
    dspace_type_three_failure_kinds [of "''numpy''" False plain_set]
  by (simp add: L2_real_def L2_complex_def plain_set_def)

section \<open>Properties of construction\<close>

lemma RawDiscretization_init_attrs:
  "RawDiscretization_init cls u ds r x kw = Inr d \<Longrightarrow>
   d_class d = cls \<and> p_dim d = attr_dim ds \<and> p_dtype d = attr_dtype ds \<and>
   p_uspace d = u \<and> p_dspace d = ds \<and> p_restriction d = r \<and> p_extension d = x"
  by (auto simp: RawDiscretization_init_def NtuplesBase_init_def Let_def
      split: if_splits option.splits)

lemma Discretization_init_attrs:
  "Discretization_init cls u ds r x kw = Inr d \<Longrightarrow>
   d_class d = cls \<and> p_dim d = attr_dim ds \<and> p_dtype d = attr_dtype ds \<and>
   p_uspace d = u \<and> p_dspace d = ds \<and> p_restriction d = r \<and> p_extension d = x"
  by (auto simp: Discretization_init_def NtuplesBase_init_def Let_def
      dest!: RawDiscretization_init_attrs split: if_splits sum.splits)

lemma DiscreteL2_init_attrs:
  "DiscreteL2_init M l2 g ds interp kw = Inr d \<Longrightarrow>
   d_class d = DiscreteL2C \<and> p_dim d = attr_dim ds \<and> p_dtype d = attr_dtype ds \<and>
   p_uspace d = l2 \<and> p_dspace d = ds"
  by (auto simp: DiscreteL2_init_def Let_def
      dest!: Discretization_init_attrs split: if_splits sum.splits)

lemma Vector_init_space:
  "Vector_init E d nt s = Inr v \<Longrightarrow>
   v_space v = d \<and> nt = NtupleVec (v_ntuple v) \<and> v_class v = Vector_of (d_class d)"
  by (cases nt) (auto split: if_splits)

lemma element_space: "element E d inp s = Inr (v, s') \<Longrightarrow> v_space v = d"
  by (auto simp: element_def dest!: Vector_init_space
      split: option.splits sum.splits if_splits prod.splits)

lemma zero_space: "Discretization_zero E d s = Inr (v, s') \<Longrightarrow> v_space v = d"
  by (auto simp: Discretization_zero_def dest!: Vector_init_space
      split: sum.splits prod.splits)

lemma Discretization_init_bare:
  "Discretization_init DiscretizationC L2_real Rn4 None None None = Inr discr_bare"
  by (simp add: Discretization_init_def RawDiscretization_init_def NtuplesBase_init_def
      check_restr_def check_ext_def L2_real_def Rn4_def discr_bare_def)

lemma DiscreteL2_init_full:
  "DiscreteL2_init operators L2_real [4] Rn4 ''nearest'' None = Inr discr_full"
  by (simp add: Let_def DiscreteL2_init_def Discretization_init_def RawDiscretization_init_def
      NtuplesBase_init_def check_restr_def check_ext_def L2_real_def Rn4_def discr_bare_def
      discr_full_def operators_def supported_interp_def sampling_def interpolation_def)

text \<open>
  C10. A discretization that \<open>RawDiscretization.__init__\<close>, \<open>Discretization.__init__\<close>
  or \<open>DiscreteL2.__init__\<close> returns has the data space it was given, and its \<open>dim\<close>
  and \<open>dtype\<close> are those of that data space. The methods take the discretization and
  return no changed one: the elements that \<open>element\<close> and \<open>zero\<close> create refer to the
  discretization as it was.
\<close>

theorem dim_dtype_taken_from_dspace:
  "(RawDiscretization_init cls u ds r x kw = Inr d \<longrightarrow>
      dspace d = ds \<and> dim d = attr_dim (dspace d) \<and> dtype d = attr_dtype (dspace d)) \<and>
   (Discretization_init cls u ds r x kw = Inr d \<longrightarrow>
      dspace d = ds \<and> dim d = attr_dim (dspace d) \<and> dtype d = attr_dtype (dspace d)) \<and>
   (DiscreteL2_init M u g ds interp kw = Inr d \<longrightarrow>
      dspace d = ds \<and> dim d = attr_dim (dspace d) \<and> dtype d = attr_dtype (dspace d)) \<and>
   (element E d inp s = Inr (v, s') \<longrightarrow> v_space v = d) \<and>
   (Discretization_zero E d s = Inr (v, s') \<longrightarrow> v_space v = d)"
  using RawDiscretization_init_attrs [of cls u ds r x kw d]
    Discretization_init_attrs [of cls u ds r x kw d]
    DiscreteL2_init_attrs [of M u g ds interp kw d]
    element_space [of E d inp s v s'] zero_space [of E d s v s']
  by (simp add: dim_def dtype_def dspace_def)

theorem dim_dtype_taken_from_dspace_witness:
  "Discretization_init DiscretizationC L2_real Rn4 None None None = Inr discr_bare \<and>
   DiscreteL2_init operators L2_real [4] Rn4 ''nearest'' None = Inr discr_full \<and>
   dspace discr_bare = Rn4 \<and> dim discr_bare = 4 \<and> dtype discr_bare = ''float64'' \<and>
   dspace discr_full = Rn4 \<and> dim discr_full = 4 \<and> dtype discr_full = ''float64''"
  using dim_dtype_taken_from_dspace [of DiscretizationC L2_real Rn4 None None None discr_bare
      operators "[4]" "''nearest''" int_backend None store0]
    dim_dtype_taken_from_dspace [of DiscretizationC L2_real Rn4 None None None discr_full
      operators "[4]" "''nearest''" int_backend None store0]
    Discretization_init_bare DiscreteL2_init_full
  by (simp add: Rn4_def)

section \<open>Properties of DiscreteL2\<close>

lemma DiscreteL2_init_not_nearest:
  "isinstance_L2 l2 \<Longrightarrow> interp \<noteq> ''nearest'' \<Longrightarrow>
   DiscreteL2_init M l2 g ds interp kw =
     Inl (ValueError ''{} is not among the supported interpolationtypes {}.'')"
  by (simp add: DiscreteL2_init_def supported_interp_def)

lemma DiscreteL2_init_nearest:
  "isinstance_L2 l2 \<Longrightarrow>
   GridCollocation M l2 g ds (case kw of None \<Rightarrow> ''C'' | Some ord \<Rightarrow> ord) = Inr r \<Longrightarrow>
   NearestInterpolation M l2 g ds (case kw of None \<Rightarrow> ''C'' | Some ord \<Rightarrow> ord) = Inr x \<Longrightarrow>
   DiscreteL2_init M l2 g ds ''nearest'' kw =
     Discretization_init DiscreteL2C l2 ds (Some r) (Some x) None"
  by (simp add: DiscreteL2_init_def supported_interp_def)

lemma DiscreteL2_init_extension:
  "DiscreteL2_init M l2 g ds ''nearest'' kw = Inr d \<Longrightarrow>
   extension d = NearestInterpolation M l2 g ds (case kw of None \<Rightarrow> ''C'' | Some ord \<Rightarrow> ord)"
  by (auto simp: DiscreteL2_init_def Let_def extension_def
      dest!: Discretization_init_attrs split: if_splits sum.splits)

text \<open>
  C3, as the code has it. For an $L^2$ space, every interpolation kind other than
  \<open>nearest\<close>, \<open>linear\<close> included, fails with the \<open>ValueError\<close> of the unsupported
  kinds: the test against the supported kinds comes first, and the branch that raises
  \<open>NotImplementedError\<close> is behind it. For \<open>nearest\<close> the construction goes on to the
  parent initializer with the collocation operator as restriction and the nearest
  interpolation as extension, and a discretization it returns has that extension.
\<close>

theorem DiscreteL2_init_interp:
  "(isinstance_L2 l2 \<and> interp \<noteq> ''nearest'' \<longrightarrow>
      DiscreteL2_init M l2 g ds interp kw =
        Inl (ValueError ''{} is not among the supported interpolationtypes {}.'')) \<and>
   (isinstance_L2 l2 \<and>
    GridCollocation M l2 g ds (case kw of None \<Rightarrow> ''C'' | Some ord \<Rightarrow> ord) = Inr r \<and>
    NearestInterpolation M l2 g ds (case kw of None \<Rightarrow> ''C'' | Some ord \<Rightarrow> ord) = Inr x \<longrightarrow>
      DiscreteL2_init M l2 g ds ''nearest'' kw =
        Discretization_init DiscreteL2C l2 ds (Some r) (Some x) None) \<and>
   (DiscreteL2_init M l2 g ds ''nearest'' kw = Inr d \<longrightarrow>
      extension d =
        NearestInterpolation M l2 g ds (case kw of None \<Rightarrow> ''C'' | Some ord \<Rightarrow> ord))"
  using DiscreteL2_init_not_nearest [of l2 interp M g ds kw]
    DiscreteL2_init_nearest [of l2 M g ds kw r x]
    DiscreteL2_init_extension [of M l2 g ds kw d]
  by blast

theorem DiscreteL2_init_interp_witness:
  "DiscreteL2_init operators L2_real [4] Rn4 ''linear'' None =
     Inl (ValueError ''{} is not among the supported interpolationtypes {}.'') \<and>
   DiscreteL2_init operators L2_real [4] Rn4 ''cubic'' None =
     Inl (ValueError ''{} is not among the supported interpolationtypes {}.'') \<and>
   DiscreteL2_init operators L2_real [4] Rn4 ''nearest'' None =
     Discretization_init DiscreteL2C L2_real Rn4 (Some sampling) (Some interpolation) None \<and>
   extension discr_full = Inr interpolation"
  using DiscreteL2_init_interp [of L2_real "''linear''" operators "[4]" Rn4 None
      sampling interpolation discr_full]
    DiscreteL2_init_interp [of L2_real "''cubic''" operators "[4]" Rn4 None
      sampling interpolation discr_full]
    DiscreteL2_init_full
  by (simp add: L2_real_def Rn4_def operators_def sampling_def interpolation_def)

theorem DiscreteL2_init_linear_counterexample:
  "DiscreteL2_init operators L2_real [4] Rn4 ''linear'' None =
     Inl (ValueError ''{} is not among the supported interpolationtypes {}.'') \<and>
   DiscreteL2_init operators L2_real [4] Rn4 ''linear'' None \<noteq> Inl (NotImplementedError [])"
  by (simp add: DiscreteL2_init_def supported_interp_def L2_real_def)

section \<open>Properties of the equality test\<close>

lemma equals_restriction_unset:
  "NtuplesBase_equals self other \<Longrightarrow> uspace other = uspace self \<Longrightarrow>
   dspace other = dspace self \<Longrightarrow> p_restriction other = None \<or> p_restriction self = None \<Longrightarrow>
   equals self other = Inl (NotImplementedError ''no restriction operator provided.'')"
  by (auto simp: equals_def restriction_def split: option.splits)

lemma equals_all_declared:
  "p_restriction self = Some rs \<Longrightarrow> p_restriction other = Some ro \<Longrightarrow>
   p_extension self = Some xs \<Longrightarrow> p_extension other = Some xo \<Longrightarrow>
   equals self other =
     Inr (dim self = dim other \<and> dtype self = dtype other \<and> uspace other = uspace self \<and>
          dspace other = dspace self \<and> ro = rs \<and> xo = xs)"
  by (auto simp: equals_def restriction_def extension_def NtuplesBase_equals_def)

text \<open>
  C2, at the failing input. The discretization of the real $L^2$ space by \<open>Rn(4)\<close>
  is constructed without restriction and extension, and its equality test with
  itself does not return: it raises the error of the unset restriction.
\<close>

theorem equals_self_without_operators:
  "Discretization_init DiscretizationC L2_real Rn4 None None None = Inr discr_bare \<and>
   equals discr_bare discr_bare =
     Inl (NotImplementedError ''no restriction operator provided.'')"
  using Discretization_init_bare
  by (simp add: equals_def NtuplesBase_equals_def restriction_def discr_bare_def)

section \<open>Properties of element resolution\<close>

lemma element_None:
  "element E d None s =
     (case ds_element E (dspace d) None s of
        Inl e \<Rightarrow> Inl e
      | Inr (nt, s1) \<Rightarrow>
         (case Vector_init E d nt s1 of Inl e \<Rightarrow> Inl e | Inr v \<Rightarrow> Inr (v, s1)))"
  by (simp add: element_def)

lemma element_in_dspace:
  "contains_dspace E (dspace d) s x \<Longrightarrow>
   element E d (Some x) s =
     (case Vector_init E d x s of Inl e \<Rightarrow> Inl e | Inr v \<Rightarrow> Inr (v, s))"
  by (simp add: element_def)

lemma element_in_dspace_no_copy:
  "contains_dspace E (dspace d) s x \<Longrightarrow> element E d (Some x) s = Inr (v, s') \<Longrightarrow>
   s' = s \<and> x = NtupleVec (v_ntuple v) \<and> v_space v = d"
  by (auto simp: element_in_dspace dest!: Vector_init_space split: sum.splits)

lemma element_in_uspace_unavailable:
  "\<not> contains_dspace E (dspace d) s x \<Longrightarrow> us_contains E (uspace d) s x \<Longrightarrow>
   p_restriction d = None \<Longrightarrow>
   element E d (Some x) s = Inl (NotImplementedError ''no restriction operator provided.'')"
  by (simp add: element_def restriction_def)

lemma element_in_uspace:
  "\<not> contains_dspace E (dspace d) s x \<Longrightarrow> us_contains E (uspace d) s x \<Longrightarrow>
   p_restriction d = Some r \<Longrightarrow>
   element E d (Some x) s =
     (case us_element E (uspace d) x s of
        Inl e \<Rightarrow> Inl e
      | Inr u \<Rightarrow>
         (case op_call E r u s of
            Inl e \<Rightarrow> Inl e
          | Inr (nt, s1) \<Rightarrow>
             (case Vector_init E d nt s1 of Inl e \<Rightarrow> Inl e | Inr v \<Rightarrow> Inr (v, s1))))"
  by (simp add: element_def restriction_def)

lemma element_otherwise:
  "\<not> contains_dspace E (dspace d) s x \<Longrightarrow> \<not> us_contains E (uspace d) s x \<Longrightarrow>
   element E d (Some x) s =
     (case np_asarray E x (attr_dtype (dspace d)) (order d) s of
        Inl e \<Rightarrow> Inl e
      | Inr arr \<Rightarrow>
         (case ds_element E (dspace d) (Some arr) s of
            Inl e \<Rightarrow> Inl e
          | Inr (nt, s1) \<Rightarrow>
             (case Vector_init E d nt s1 of Inl e \<Rightarrow> Inl e | Inr v \<Rightarrow> Inr (v, s1))))"
  by (simp add: element_def)

text \<open>
  C1. \<open>element\<close> resolves its input in four steps, in this order. Without input it
  wraps the data space's default element. An input that belongs to the data space is
  wrapped as it is, whether or not it also belongs to the abstract space and whether
  or not a restriction is configured: the store is unchanged and the element's
  n-tuple is the input object itself. Otherwise an input that belongs to the abstract
  space goes through the restriction operator, and the call fails with the error of
  the unset restriction when none was configured. Otherwise the input is coerced to
  a flat array of the data space's dtype in the discretization's ordering and made an
  element of the data space.
\<close>

theorem element_priority_chain:
  "element E d None s =
     (case ds_element E (dspace d) None s of
        Inl e \<Rightarrow> Inl e
      | Inr (nt, s1) \<Rightarrow>
         (case Vector_init E d nt s1 of Inl e \<Rightarrow> Inl e | Inr v \<Rightarrow> Inr (v, s1))) \<and>
   (contains_dspace E (dspace d) s x \<longrightarrow>
      element E d (Some x) s =
        (case Vector_init E d x s of Inl e \<Rightarrow> Inl e | Inr v \<Rightarrow> Inr (v, s))) \<and>
   (contains_dspace E (dspace d) s x \<and> element E d (Some x) s = Inr (v, s') \<longrightarrow>
      s' = s \<and> x = NtupleVec (v_ntuple v) \<and> v_space v = d) \<and>
   (\<not> contains_dspace E (dspace d) s x \<and> us_contains E (uspace d) s x \<and>
    p_restriction d = None \<longrightarrow>
      element E d (Some x) s =
        Inl (NotImplementedError ''no restriction operator provided.'')) \<and>
   (\<not> contains_dspace E (dspace d) s x \<and> us_contains E (uspace d) s x \<and>
    p_restriction d = Some r \<longrightarrow>
      element E d (Some x) s =
        (case us_element E (uspace d) x s of
           Inl e \<Rightarrow> Inl e
         | Inr u \<Rightarrow>
            (case op_call E r u s of
               Inl e \<Rightarrow> Inl e
             | Inr (nt, s1) \<Rightarrow>
                (case Vector_init E d nt s1 of Inl e \<Rightarrow> Inl e | Inr v \<Rightarrow> Inr (v, s1))))) \<and>
   (\<not> contains_dspace E (dspace d) s x \<and> \<not> us_contains E (uspace d) s x \<longrightarrow>
      element E d (Some x) s =
        (case np_asarray E x (attr_dtype (dspace d)) (order d) s of
           Inl e \<Rightarrow> Inl e
         | Inr arr \<Rightarrow>
            (case ds_element E (dspace d) (Some arr) s of
               Inl e \<Rightarrow> Inl e
             | Inr (nt, s1) \<Rightarrow>
                (case Vector_init E d nt s1 of Inl e \<Rightarrow> Inl e | Inr v \<Rightarrow> Inr (v, s1)))))"
  using element_None [of E d s] element_in_dspace [of E d s x]
    element_in_dspace_no_copy [of E d s x v s']
    element_in_uspace_unavailable [of E d s x] element_in_uspace [of E d s x r]
    element_otherwise [of E d s x]
  by blast

theorem element_priority_chain_witness:
  "element int_backend discr_full (Some (NtupleVec 0)) store0 =
     Inr (\<lparr>v_class = Discretization_Vector, v_space = discr_full, v_ntuple = 0\<rparr>, store0) \<and>
   element int_backend discr_bare (Some (NtupleVec 0)) store0 =
     Inr (\<lparr>v_class = Discretization_Vector, v_space = discr_bare, v_ntuple = 0\<rparr>, store0) \<and>
   element int_backend discr_bare (Some (Obj ''f'')) store0 =
     Inl (NotImplementedError ''no restriction operator provided.'') \<and>
   element int_backend discr_full (Some (Obj ''f'')) store0 =
     Inr (\<lparr>v_class = Discretization_Vector, v_space = discr_full, v_ntuple = 2\<rparr>,
          store0 @ [\<lparr>nt_space = Rn4, nt_data = [1, 2, 3, 4]\<rparr>]) \<and>
   element int_backend discr_full (Some (Obj ''[5, 6, 7, 8]'')) store0 =
     Inr (\<lparr>v_class = Discretization_Vector, v_space = discr_full, v_ntuple = 2\<rparr>,
          store0 @ [\<lparr>nt_space = Rn4, nt_data = [5, 6, 7, 8]\<rparr>]) \<and>
   element int_backend discr_full None store0 =
     Inr (\<lparr>v_class = Discretization_Vector, v_space = discr_full, v_ntuple = 2\<rparr>,
          store0 @ [\<lparr>nt_space = Rn4, nt_data = [0, 0, 0, 0]\<rparr>])"
  using element_priority_chain [of int_backend discr_full store0 "NtupleVec 0"]
    element_priority_chain [of int_backend discr_bare store0 "NtupleVec 0"]
    element_priority_chain [of int_backend discr_bare store0 "Obj ''f''"]
    element_priority_chain [of int_backend discr_full store0 "Obj ''f''" _ _ sampling]
    element_priority_chain [of int_backend discr_full store0 "Obj ''[5, 6, 7, 8]''"]
  by (simp add: int_backend_def alloc_def discr_bare_def discr_full_def sampling_def
      interpolation_def store0_def dspace_def uspace_def order_def Rn4_def Cn4_def L2_real_def
      numeral_eq_Suc)

section \<open>Properties of copying\<close>

lemma element_in_dspace_valid:
  "contains_dspace E (dspace d) s x \<Longrightarrow> element E d (Some x) s = Inr (v, s') \<Longrightarrow>
   valid_vector E v s'"
  by (cases x) (auto simp: element_in_dspace valid_vector_def ntuple_def split: if_splits)

lemma Vector_copy_valid:
  assumes "valid_vector E x s"
  shows "Vector_copy E x s = Inr (x\<lparr>v_ntuple := length s\<rparr>, s @ [s ! ntuple x])"
proof -
  let ?ds = "dspace (v_space x)"
  let ?s1 = "s @ [s ! ntuple x]"
  from assms have mem: "ds_contains E ?ds (s ! ntuple x)"
    and isv: "ds_isvector E ?ds (s ! ntuple x)"
    and cls: "v_class x = Vector_of (d_class (v_space x))"
    by (simp_all add: valid_vector_def)
  have c: "contains_dspace E ?ds ?s1 (NtupleVec (length s))"
    using mem by simp
  have i: "Vector_init E (v_space x) (NtupleVec (length s)) ?s1 =
      Inr \<lparr>v_class = Vector_of (d_class (v_space x)), v_space = v_space x,
           v_ntuple = length s\<rparr>"
    using isv by simp
  have "\<lparr>v_class = Vector_of (d_class (v_space x)), v_space = v_space x, v_ntuple = length s\<rparr>
      = x\<lparr>v_ntuple := length s\<rparr>"
    using cls by simp
  with c i show ?thesis
    by (simp add: Vector_copy_def ntuple_copy_def element_in_dspace)
qed

lemma ntuple_setitem_other:
  "ntuple_setitem a idx vals s = Inr s2 \<Longrightarrow> b \<noteq> a \<Longrightarrow>
   s2 ! b = s ! b \<and> length s2 = length s"
  by (auto simp: ntuple_setitem_def split: sum.splits)

lemma Vector_setitem_other:
  "Vector_setitem y idx vals s = Inr s2 \<Longrightarrow> b \<noteq> ntuple y \<Longrightarrow>
   s2 ! b = s ! b \<and> length s2 = length s"
  by (cases vals) (auto simp: Vector_setitem_def dest: ntuple_setitem_other)

text \<open>
  C9. For an element \<open>x\<close> whose n-tuple belongs to the data space of its
  discretization, \<open>x.copy()\<close> returns an element of the same class and the same space
  on a new n-tuple object, a full copy of the data: it is not \<open>x\<close>'s n-tuple, it is
  equal to \<open>x\<close>, and \<open>x\<close> is as it was. Whatever is then assigned to entries of the
  copy, every entry of \<open>x\<close> reads as before.
\<close>

theorem copy_distinct_equal_independent:
  assumes "valid_vector E x s"
  shows "Vector_copy E x s = Inr (x\<lparr>v_ntuple := length s\<rparr>, s @ [s ! ntuple x]) \<and>
    ntuple (x\<lparr>v_ntuple := length s\<rparr>) \<noteq> ntuple x \<and>
    v_class (x\<lparr>v_ntuple := length s\<rparr>) = v_class x \<and>
    Vector_equals x (x\<lparr>v_ntuple := length s\<rparr>) (s @ [s ! ntuple x]) \<and>
    Vector_asarray (x\<lparr>v_ntuple := length s\<rparr>) (s @ [s ! ntuple x]) = Vector_asarray x s \<and>
    Vector_asarray x (s @ [s ! ntuple x]) = Vector_asarray x s \<and>
    valid_vector E (x\<lparr>v_ntuple := length s\<rparr>) (s @ [s ! ntuple x]) \<and>
    (\<forall>idx vals s2.
       Vector_setitem (x\<lparr>v_ntuple := length s\<rparr>) idx vals (s @ [s ! ntuple x]) = Inr s2 \<longrightarrow>
       Vector_asarray x s2 = Vector_asarray x s \<and>
       Vector_getitem x idx s2 = Vector_getitem x idx s)"
proof -
  let ?y = "x\<lparr>v_ntuple := length s\<rparr>"
  let ?s1 = "s @ [s ! ntuple x]"
  from assms have lt: "ntuple x < length s"
    by (simp add: valid_vector_def)
  have ne: "ntuple ?y \<noteq> ntuple x" using lt by (simp add: ntuple_def)
  have x1: "?s1 ! ntuple x = s ! ntuple x" using lt by (simp add: nth_append)
  have y1: "?s1 ! ntuple ?y = s ! ntuple x" by (simp add: ntuple_def)
  have frame: "Vector_asarray x s2 = Vector_asarray x s \<and>
       Vector_getitem x idx s2 = Vector_getitem x idx s"
    if "Vector_setitem ?y idx vals ?s1 = Inr s2" for idx vals s2
  proof -
    from Vector_setitem_other [OF that, of "ntuple x"] ne
    have "s2 ! ntuple x = ?s1 ! ntuple x" by simp
    with x1 show ?thesis
      by (simp add: Vector_asarray_def Vector_getitem_def ntuple_asarray_def ntuple_getitem_def)
  qed
  have valid: "valid_vector E ?y ?s1"
    using assms by (simp add: valid_vector_def ntuple_def)
  show ?thesis
    using Vector_copy_valid [OF assms] ne x1 y1 frame valid
    by (simp add: Vector_equals_def ntuple_equals_def Vector_asarray_def ntuple_asarray_def)
qed

lemma vec_at_valid: "valid_vector int_backend (vec_at 0) store1"
  by (simp add: valid_vector_def vec_at_def store1_def int_backend_def discr_full_def
      discr_bare_def dspace_def ntuple_def)

theorem copy_distinct_equal_independent_witness:
  "valid_vector int_backend (vec_at 0) store1 \<and>
   Vector_copy int_backend (vec_at 0) store1 =
     Inr (vec_at 3, store1 @ [\<lparr>nt_space = Rn4, nt_data = [1, 2, 3, 4]\<rparr>]) \<and>
   Vector_asarray (vec_at 3) (store1 @ [\<lparr>nt_space = Rn4, nt_data = [1, 2, 3, 4]\<rparr>]) =
     [1, 2, 3, 4] \<and>
   Vector_setitem (vec_at 3) (Index 0) (Scalar 9)
       (store1 @ [\<lparr>nt_space = Rn4, nt_data = [1, 2, 3, 4]\<rparr>]) =
     Inr (store1 @ [\<lparr>nt_space = Rn4, nt_data = [9, 2, 3, 4]\<rparr>]) \<and>
   Vector_asarray (vec_at 0) (store1 @ [\<lparr>nt_space = Rn4, nt_data = [9, 2, 3, 4]\<rparr>]) =
     [1, 2, 3, 4]"
proof -
  have s: "store1 @ [store1 ! ntuple (vec_at 0)] =
      store1 @ [\<lparr>nt_space = Rn4, nt_data = [1, 2, 3, 4]\<rparr>]"
    by (simp add: store1_def vec_at_def ntuple_def)
  have y: "(vec_at 0)\<lparr>v_ntuple := length store1\<rparr> = vec_at 3"
    by (simp add: store1_def vec_at_def)
  have w: "Vector_setitem (vec_at 3) (Index 0) (Scalar 9)
       (store1 @ [\<lparr>nt_space = Rn4, nt_data = [1, 2, 3, 4]\<rparr>]) =
     Inr (store1 @ [\<lparr>nt_space = Rn4, nt_data = [9, 2, 3, 4]\<rparr>])"
    by (simp add: Vector_setitem_def ntuple_setitem_def ntuple_def vec_at_def store1_def)
  from copy_distinct_equal_independent [OF vec_at_valid]
  have "Vector_copy int_backend (vec_at 0) store1 =
       Inr (vec_at 3, store1 @ [\<lparr>nt_space = Rn4, nt_data = [1, 2, 3, 4]\<rparr>])"
    and "Vector_asarray (vec_at 3) (store1 @ [\<lparr>nt_space = Rn4, nt_data = [1, 2, 3, 4]\<rparr>]) =
       Vector_asarray (vec_at 0) store1"
    and "\<forall>idx vals s2.
       Vector_setitem (vec_at 3) idx vals
         (store1 @ [\<lparr>nt_space = Rn4, nt_data = [1, 2, 3, 4]\<rparr>]) = Inr s2 \<longrightarrow>
       Vector_asarray (vec_at 0) s2 = Vector_asarray (vec_at 0) store1"
    by (simp_all only: s y) blast+
  moreover have "Vector_asarray (vec_at 0) store1 = [1, 2, 3, 4]"
    by (simp add: Vector_asarray_def ntuple_asarray_def ntuple_def vec_at_def store1_def)
  ultimately show ?thesis
    using vec_at_valid w by simp
qed

section \<open>Properties of the linear-space primitives\<close>

text \<open>
  C5. The primitives of \<open>Discretization\<close> are those of the data space on the
  n-tuples of the elements: \<open>zero\<close> wraps the data space's zero, and linear
  combination, distance, norm, inner product and pointwise multiplication are the
  data space's own, called with the n-tuples. They depend on the discretization
  through its data space only: two discretizations with the same data space, whatever
  their abstract spaces and operators, compute the same. Where the data space's
  primitive writes \<open>a\<cdot>x + b\<cdot>y\<close> into its first argument, the n-tuple of \<open>z\<close> holds
  \<open>a\<cdot>x.ntuple + b\<cdot>y.ntuple\<close> afterwards.
\<close>

theorem linear_primitives_pass_through:
  "Discretization_zero E d s =
     (case ds_zero E (dspace d) s of
        Inl e \<Rightarrow> Inl e
      | Inr (nt, s1) \<Rightarrow>
         (case Vector_init E d nt s1 of Inl e \<Rightarrow> Inl e | Inr v \<Rightarrow> Inr (v, s1))) \<and>
   Discretization_lincomb E d z a x b y s =
     ds_lincomb E (dspace d) (ntuple z) a (ntuple x) b (ntuple y) s \<and>
   Discretization_dist E d x y s = ds_dist E (dspace d) (ntuple x) (ntuple y) s \<and>
   Discretization_norm E d x s = ds_norm E (dspace d) (ntuple x) s \<and>
   Discretization_inner E d x y s = ds_inner E (dspace d) (ntuple x) (ntuple y) s \<and>
   Discretization_multiply E d z x y s =
     ds_multiply E (dspace d) (ntuple z) (ntuple x) (ntuple y) s \<and>
   (dspace d' = dspace d \<longrightarrow>
      Discretization_lincomb E d' z a x b y s = Discretization_lincomb E d z a x b y s \<and>
      Discretization_dist E d' x y s = Discretization_dist E d x y s \<and>
      Discretization_norm E d' x s = Discretization_norm E d x s \<and>
      Discretization_inner E d' x y s = Discretization_inner E d x y s \<and>
      Discretization_multiply E d' z x y s = Discretization_multiply E d z x y s) \<and>
   (ntuple z < length s \<and>
    ds_lincomb E (dspace d) (ntuple z) a (ntuple x) b (ntuple y) s =
      Inr (s[ntuple z := (s ! ntuple z)
             \<lparr>nt_data := lincomb_entries a (Vector_asarray x s) b (Vector_asarray y s)\<rparr>]) \<longrightarrow>
      (\<exists>s1. Discretization_lincomb E d z a x b y s = Inr s1 \<and>
            Vector_asarray z s1 =
              lincomb_entries a (Vector_asarray x s) b (Vector_asarray y s)))"
  by (simp add: Discretization_zero_def Discretization_lincomb_def Discretization_dist_def
      Discretization_norm_def Discretization_inner_def Discretization_multiply_def ntuple_def
      Vector_asarray_def ntuple_asarray_def)

theorem linear_primitives_pass_through_witness:
  "Discretization_lincomb int_backend discr_full (vec_at 2) 2 (vec_at 0) 3 (vec_at 1) store1 =
     Inr (store1[2 := \<lparr>nt_space = Rn4, nt_data = [32, 64, 96, 128]\<rparr>]) \<and>
   Discretization_lincomb int_backend discr_bare (vec_at 2) 2 (vec_at 0) 3 (vec_at 1) store1 =
     Discretization_lincomb int_backend discr_full (vec_at 2) 2 (vec_at 0) 3 (vec_at 1) store1 \<and>
   Discretization_dist int_backend discr_full (vec_at 0) (vec_at 1) store1 = Inr 90 \<and>
   Discretization_norm int_backend discr_full (vec_at 0) store1 = Inr 10 \<and>
   Discretization_inner int_backend discr_full (vec_at 0) (vec_at 1) store1 = Inr 300 \<and>
   Discretization_multiply int_backend discr_full (vec_at 2) (vec_at 0) (vec_at 1) store1 =
     Inr (store1[2 := \<lparr>nt_space = Rn4, nt_data = [10, 40, 90, 160]\<rparr>])"
  using linear_primitives_pass_through [of int_backend discr_full store1 "vec_at 2" 2
      "vec_at 0" 3 "vec_at 1" discr_bare]
  by (simp add: int_backend_def write_data_def discr_bare_def discr_full_def store1_def
      vec_at_def dspace_def ntuple_def)

section \<open>Properties of the wrappers for discretized-function elements\<close>

lemma discretelp_1_1_no_out:
  "discretelp_1_1 E name elem None s =
     (case tensor_ufunc E name (elem_tensor elem) None [] s of
        Inl e \<Rightarrow> Inl e
      | Inr (r, s1) \<Rightarrow>
         (case lp_element E (elem_space elem) (Some r) s1 of
            Inl e \<Rightarrow> Inl e
          | Inr (y, s2) \<Rightarrow> Inr (Elem y, s2)))"
  by (simp add: discretelp_1_1_def)

lemma discretelp_1_1_out:
  "discretelp_1_1 E name elem (Some (Elem ob)) s =
     (case tensor_ufunc E name (elem_tensor elem) None [elem_tensor ob] s of
        Inl e \<Rightarrow> Inl e
      | Inr (r, s1) \<Rightarrow> Inr (Elem ob, s1))"
  by (simp add: discretelp_1_1_def)

lemma discretelp_2_1_no_out:
  "unwrap_x2 E elem x2 = Inr x2' \<Longrightarrow>
   discretelp_2_1 E name elem x2 None s =
     (case tensor_ufunc E name (elem_tensor elem) (Some x2') [] s of
        Inl e \<Rightarrow> Inl e
      | Inr (r, s1) \<Rightarrow>
         (case lp_element E (elem_space elem) (Some r) s1 of
            Inl e \<Rightarrow> Inl e
          | Inr (y, s2) \<Rightarrow> Inr (Elem y, s2)))"
  by (simp add: discretelp_2_1_def)

lemma discretelp_2_1_out:
  "unwrap_x2 E elem x2 = Inr x2' \<Longrightarrow>
   discretelp_2_1 E name elem x2 (Some (Elem ob)) s =
     (case tensor_ufunc E name (elem_tensor elem) (Some x2') [elem_tensor ob] s of
        Inl e \<Rightarrow> Inl e
      | Inr (r, s1) \<Rightarrow> Inr (Elem ob, s1))"
  by (simp add: discretelp_2_1_def)

lemma discretelp_1_2_out:
  "discretelp_1_2 E name elem (Some (Elem o1)) (Some (Elem o2)) s =
     (case tensor_ufunc E name (elem_tensor elem) None [elem_tensor o1, elem_tensor o2] s of
        Inl e \<Rightarrow> Inl e
      | Inr (r, s1) \<Rightarrow>
         (case unpack2 E r of
            Inl e \<Rightarrow> Inl e
          | Inr (y1, y2) \<Rightarrow> Inr ((Elem o1, Elem o2), s1)))"
  by (simp add: discretelp_1_2_def default_out_def)

lemma discretelp_1_2_no_out:
  "lp_element E (elem_space elem) None s = Inr (n1, s1) \<Longrightarrow>
   lp_element E (elem_space elem) None s1 = Inr (n2, s2) \<Longrightarrow>
   discretelp_1_2 E name elem None None s =
     (case tensor_ufunc E name (elem_tensor elem) None [elem_tensor n1, elem_tensor n2] s2 of
        Inl e \<Rightarrow> Inl e
      | Inr (r, s3) \<Rightarrow>
         (case unpack2 E r of
            Inl e \<Rightarrow> Inl e
          | Inr (y1, y2) \<Rightarrow> Inr ((Elem n1, Elem n2), s3)))"
  by (simp add: discretelp_1_2_def default_out_def)

lemma unwrap_x2_Elem:
  "unwrap_x2 E elem (Elem e2) =
     Inr (if lp_contains E (elem_space elem) (Elem e2) then Raw (elem_tensor e2) else Elem e2)"
  by (simp add: unwrap_x2_def)

lemma unwrap_x2_outside:
  "\<not> lp_contains E (elem_space elem) x2 \<Longrightarrow> unwrap_x2 E elem x2 = Inr x2"
  by (simp add: unwrap_x2_def)

text \<open>
  C6. The callable generated for an operation of the catalog (one or two inputs with
  one output, one input with two outputs) calls the operation of the same name on the
  facade of the element's inner tensor. Without an output buffer the raw result is
  made an element of the element's space by that space's \<open>element\<close>; with an output
  buffer, the buffer's inner tensor is the output target of the call and the buffer
  itself is returned. A second operand that belongs to the element's space is passed
  by its inner tensor, any other as it is. For the operation with two outputs, a
  buffer that is not supplied is a new element of the element's space, whose inner
  tensor is the output target, and the two buffers are returned: where the facade
  returns the targets it was given, these are new elements of the space on the two
  raw results.
\<close>

theorem discretelp_wrapper_delegates:
  "wrap_ufunc_discretelp E name 1 1 = Inr (Wrapper_1_1 (discretelp_1_1 E name)) \<and>
   wrap_ufunc_discretelp E name 2 1 = Inr (Wrapper_2_1 (discretelp_2_1 E name)) \<and>
   wrap_ufunc_discretelp E name 1 2 = Inr (Wrapper_1_2 (discretelp_1_2 E name)) \<and>
   discretelp_1_1 E name elem None s =
     (case tensor_ufunc E name (elem_tensor elem) None [] s of
        Inl e \<Rightarrow> Inl e
      | Inr (r, s1) \<Rightarrow>
         (case lp_element E (elem_space elem) (Some r) s1 of
            Inl e \<Rightarrow> Inl e
          | Inr (y, s2) \<Rightarrow> Inr (Elem y, s2))) \<and>
   discretelp_1_1 E name elem (Some (Elem ob)) s =
     (case tensor_ufunc E name (elem_tensor elem) None [elem_tensor ob] s of
        Inl e \<Rightarrow> Inl e
      | Inr (r, s1) \<Rightarrow> Inr (Elem ob, s1)) \<and>
   unwrap_x2 E elem (Elem e2) =
     Inr (if lp_contains E (elem_space elem) (Elem e2) then Raw (elem_tensor e2) else Elem e2) \<and>
   (\<not> lp_contains E (elem_space elem) x2 \<longrightarrow> unwrap_x2 E elem x2 = Inr x2) \<and>
   (unwrap_x2 E elem x2 = Inr x2' \<longrightarrow>
      discretelp_2_1 E name elem x2 None s =
        (case tensor_ufunc E name (elem_tensor elem) (Some x2') [] s of
           Inl e \<Rightarrow> Inl e
         | Inr (r, s1) \<Rightarrow>
            (case lp_element E (elem_space elem) (Some r) s1 of
               Inl e \<Rightarrow> Inl e
             | Inr (y, s2) \<Rightarrow> Inr (Elem y, s2))) \<and>
      discretelp_2_1 E name elem x2 (Some (Elem ob)) s =
        (case tensor_ufunc E name (elem_tensor elem) (Some x2') [elem_tensor ob] s of
           Inl e \<Rightarrow> Inl e
         | Inr (r, s1) \<Rightarrow> Inr (Elem ob, s1))) \<and>
   discretelp_1_2 E name elem (Some (Elem o1)) (Some (Elem o2)) s =
     (case tensor_ufunc E name (elem_tensor elem) None [elem_tensor o1, elem_tensor o2] s of
        Inl e \<Rightarrow> Inl e
      | Inr (r, s1) \<Rightarrow>
         (case unpack2 E r of
            Inl e \<Rightarrow> Inl e
          | Inr (y1, y2) \<Rightarrow> Inr ((Elem o1, Elem o2), s1))) \<and>
   (lp_element E (elem_space elem) None s = Inr (n1, t1) \<and>
    lp_element E (elem_space elem) None t1 = Inr (n2, t2) \<longrightarrow>
      discretelp_1_2 E name elem None None s =
        (case tensor_ufunc E name (elem_tensor elem) None [elem_tensor n1, elem_tensor n2] t2 of
           Inl e \<Rightarrow> Inl e
         | Inr (r, s3) \<Rightarrow>
            (case unpack2 E r of
               Inl e \<Rightarrow> Inl e
             | Inr (y1, y2) \<Rightarrow> Inr ((Elem n1, Elem n2), s3)))) \<and>
   (lp_element E (elem_space elem) None s = Inr (n1, t1) \<and>
    lp_element E (elem_space elem) None t1 = Inr (n2, t2) \<and>
    tensor_ufunc E name (elem_tensor elem) None [elem_tensor n1, elem_tensor n2] t2 =
      Inr (raw_result, t3) \<and>
    unpack2 E raw_result = Inr (elem_tensor n1, elem_tensor n2) \<longrightarrow>
      discretelp_1_2 E name elem None None s = Inr ((Elem n1, Elem n2), t3))"
  using discretelp_1_1_no_out [of E name elem s] discretelp_1_1_out [of E name elem ob s]
    unwrap_x2_Elem [of E elem e2] unwrap_x2_outside [of E elem x2]
    discretelp_2_1_no_out [of E elem x2 x2' name s]
    discretelp_2_1_out [of E elem x2 x2' name ob s]
    discretelp_1_2_out [of E name elem o1 o2 s]
    discretelp_1_2_no_out [of E elem s n1 t1 n2 t2 name]
  by (simp add: wrap_ufunc_discretelp_def)

theorem discretelp_wrapper_delegates_witness:
  "discretelp_1_1 array_backend ''negative'' (lp_at 0) None [[1, 2], [5, 5]] =
     Inr (Elem (lp_at 2), [[1, 2], [5, 5], [- 1, - 2]]) \<and>
   discretelp_1_1 array_backend ''negative'' (lp_at 0) (Some (Elem (lp_at 1))) [[1, 2], [5, 5]] =
     Inr (Elem (lp_at 1), [[1, 2], [- 1, - 2]]) \<and>
   discretelp_2_1 array_backend ''add'' (lp_at 0) (Elem (lp_at 1)) None [[1, 2], [5, 5]] =
     Inr (Elem (lp_at 2), [[1, 2], [5, 5], [6, 7]]) \<and>
   discretelp_2_1 array_backend ''add'' (lp_at 0) (Raw (Num 3)) (Some (Elem (lp_at 1)))
       [[1, 2], [5, 5]] =
     Inr (Elem (lp_at 1), [[1, 2], [4, 5]]) \<and>
   discretelp_1_2 array_backend ''modf'' (lp_at 0) None None [[12, 25], [5, 5]] =
     Inr ((Elem (lp_at 2), Elem (lp_at 3)), [[12, 25], [5, 5], [2, 5], [1, 2]])"
  using discretelp_wrapper_delegates [of array_backend "''negative''" "lp_at 0"
      "[[1, 2], [5, 5]]" "lp_at 1"]
    discretelp_wrapper_delegates [of array_backend "''add''" "lp_at 0" "[[1, 2], [5, 5]]"
      "lp_at 1" "lp_at 1" "Elem (lp_at 1)" "Raw (Ref 1)"]
    discretelp_wrapper_delegates [of array_backend "''add''" "lp_at 0" "[[1, 2], [5, 5]]"
      "lp_at 1" "lp_at 1" "Raw (Num 3)" "Raw (Num 3)"]
    discretelp_wrapper_delegates [of array_backend "''modf''" "lp_at 0" "[[12, 25], [5, 5]]"
      _ _ _ _ _ _ "lp_at 2" "[[12, 25], [5, 5], []]" "lp_at 3" "[[12, 25], [5, 5], [], []]"]
  by (simp add: array_backend_def array_ufunc_def lp_at_def)

section \<open>Properties of the wrappers for product-space elements\<close>

lemma productspace_2_1_zip:
  "ps_contains E (ps_space elem) (ProductElem e2) \<Longrightarrow>
   productspace_2_1 E name elem (ProductElem e2) None s =
     (case map_calls (\<lambda>(x, x2p). part_ufunc E name x (Some (Part x2p)) [])
             (zip (ps_parts elem) (ps_parts e2)) s of
        Inl e \<Rightarrow> Inl e
      | Inr (result, s1) \<Rightarrow> ps_element E (ps_space elem) (Some result) s1)"
  by (simp add: productspace_2_1_def)

lemma productspace_2_1_broadcast:
  "\<not> ps_contains E (ps_space elem) x2 \<Longrightarrow>
   productspace_2_1 E name elem x2 None s =
     (case map_calls (\<lambda>x. part_ufunc E name x (Some (Whole x2)) []) (ps_parts elem) s of
        Inl e \<Rightarrow> Inl e
      | Inr (result, s1) \<Rightarrow> ps_element E (ps_space elem) (Some result) s1)"
  by (simp add: productspace_2_1_def)

lemma map_calls_pure:
  "(\<And>x. x \<in> set xs \<Longrightarrow> f x s = Inr (g x, s)) \<Longrightarrow> map_calls f xs s = Inr (map g xs, s)"
  by (induction xs) auto

lemma productspace_2_1_componentwise:
  assumes mem: "ps_contains E sp (ProductElem \<lparr>ps_space = sp2, ps_parts = ys\<rparr>)"
    and pure: "\<And>x y. part_ufunc E name x (Some (Part y)) [] s = Inr (f x y, s)"
  shows "productspace_2_1 E name \<lparr>ps_space = sp, ps_parts = xs\<rparr>
           (ProductElem \<lparr>ps_space = sp2, ps_parts = ys\<rparr>) None s =
         ps_element E sp (Some (map2 f xs ys)) s"
proof -
  have "map_calls (\<lambda>(x, x2p). part_ufunc E name x (Some (Part x2p)) []) (zip xs ys) s =
      Inr (map (\<lambda>(x, y). f x y) (zip xs ys), s)"
    by (rule map_calls_pure) (auto simp: pure)
  with mem show ?thesis
    by (simp add: productspace_2_1_zip)
qed

lemma productspace_2_1_broadcast_pure:
  assumes mem: "\<not> ps_contains E sp x2"
    and pure: "\<And>x. part_ufunc E name x (Some (Whole x2)) [] s = Inr (g x, s)"
  shows "productspace_2_1 E name \<lparr>ps_space = sp, ps_parts = xs\<rparr> x2 None s =
         ps_element E sp (Some (map g xs)) s"
proof -
  have "map_calls (\<lambda>x. part_ufunc E name x (Some (Whole x2)) []) xs s = Inr (map g xs, s)"
    by (rule map_calls_pure) (auto simp: pure)
  with mem show ?thesis
    by (simp add: productspace_2_1_broadcast)
qed

text \<open>
  C7. For a two-input operation on a product-space element without an output buffer:
  a second operand that belongs to the product space is zipped with the components,
  each component's operation receiving its component of the operand; any other
  second operand is passed unchanged to every component's operation; and in both
  cases the list of the component results is made an element of the product space by
  that space's \<open>element\<close>. Where the component operation is a function \<open>f\<close> of the
  two components, the result on \<open>P(xs)\<close> and \<open>P(ys)\<close> is \<open>P\<close> of the componentwise
  \<open>f\<close>, so \<open>op(P(a,b), P(c,d)) = P(op(a,c), op(b,d))\<close>.
\<close>

theorem productspace_two_input_componentwise:
  "wrap_ufunc_productspace E name 2 1 = Inr (PWrapper_2_1 (productspace_2_1 E name)) \<and>
   (ps_contains E (ps_space elem) (ProductElem e2) \<longrightarrow>
      productspace_2_1 E name elem (ProductElem e2) None s =
        (case map_calls (\<lambda>(x, x2p). part_ufunc E name x (Some (Part x2p)) [])
                (zip (ps_parts elem) (ps_parts e2)) s of
           Inl e \<Rightarrow> Inl e
         | Inr (result, s1) \<Rightarrow> ps_element E (ps_space elem) (Some result) s1)) \<and>
   (\<not> ps_contains E (ps_space elem) x2 \<longrightarrow>
      productspace_2_1 E name elem x2 None s =
        (case map_calls (\<lambda>x. part_ufunc E name x (Some (Whole x2)) []) (ps_parts elem) s of
           Inl e \<Rightarrow> Inl e
         | Inr (result, s1) \<Rightarrow> ps_element E (ps_space elem) (Some result) s1)) \<and>
   (ps_contains E sp (ProductElem \<lparr>ps_space = sp2, ps_parts = [c, d]\<rparr>) \<and>
    (\<forall>x y. part_ufunc E name x (Some (Part y)) [] s = Inr (f x y, s)) \<longrightarrow>
      productspace_2_1 E name \<lparr>ps_space = sp, ps_parts = [a, b]\<rparr>
          (ProductElem \<lparr>ps_space = sp2, ps_parts = [c, d]\<rparr>) None s =
        ps_element E sp (Some [f a c, f b d]) s) \<and>
   (ps_contains E sp (ProductElem \<lparr>ps_space = sp2, ps_parts = ys\<rparr>) \<and>
    (\<forall>x y. part_ufunc E name x (Some (Part y)) [] s = Inr (f x y, s)) \<longrightarrow>
      productspace_2_1 E name \<lparr>ps_space = sp, ps_parts = xs\<rparr>
          (ProductElem \<lparr>ps_space = sp2, ps_parts = ys\<rparr>) None s =
        ps_element E sp (Some (map2 f xs ys)) s) \<and>
   (\<not> ps_contains E sp x2 \<and>
    (\<forall>x. part_ufunc E name x (Some (Whole x2)) [] s = Inr (g x, s)) \<longrightarrow>
      productspace_2_1 E name \<lparr>ps_space = sp, ps_parts = xs\<rparr> x2 None s =
        ps_element E sp (Some (map g xs)) s)"
proof (intro conjI impI)
  show "wrap_ufunc_productspace E name 2 1 = Inr (PWrapper_2_1 (productspace_2_1 E name))"
    by (simp add: wrap_ufunc_productspace_def)
next
  assume "ps_contains E (ps_space elem) (ProductElem e2)"
  then show "productspace_2_1 E name elem (ProductElem e2) None s =
        (case map_calls (\<lambda>(x, x2p). part_ufunc E name x (Some (Part x2p)) [])
                (zip (ps_parts elem) (ps_parts e2)) s of
           Inl e \<Rightarrow> Inl e
         | Inr (result, s1) \<Rightarrow> ps_element E (ps_space elem) (Some result) s1)"
    by (rule productspace_2_1_zip)
next
  assume "\<not> ps_contains E (ps_space elem) x2"
  then show "productspace_2_1 E name elem x2 None s =
        (case map_calls (\<lambda>x. part_ufunc E name x (Some (Whole x2)) []) (ps_parts elem) s of
           Inl e \<Rightarrow> Inl e
         | Inr (result, s1) \<Rightarrow> ps_element E (ps_space elem) (Some result) s1)"
    by (rule productspace_2_1_broadcast)
next
  assume "ps_contains E sp (ProductElem \<lparr>ps_space = sp2, ps_parts = [c, d]\<rparr>) \<and>
    (\<forall>x y. part_ufunc E name x (Some (Part y)) [] s = Inr (f x y, s))"
  then show "productspace_2_1 E name \<lparr>ps_space = sp, ps_parts = [a, b]\<rparr>
          (ProductElem \<lparr>ps_space = sp2, ps_parts = [c, d]\<rparr>) None s =
        ps_element E sp (Some [f a c, f b d]) s"
    using productspace_2_1_componentwise [of E sp sp2 "[c, d]" name s f "[a, b]"] by simp
next
  assume "ps_contains E sp (ProductElem \<lparr>ps_space = sp2, ps_parts = ys\<rparr>) \<and>
    (\<forall>x y. part_ufunc E name x (Some (Part y)) [] s = Inr (f x y, s))"
  then show "productspace_2_1 E name \<lparr>ps_space = sp, ps_parts = xs\<rparr>
          (ProductElem \<lparr>ps_space = sp2, ps_parts = ys\<rparr>) None s =
        ps_element E sp (Some (map2 f xs ys)) s"
    using productspace_2_1_componentwise [of E sp sp2 ys name s f xs] by simp
next
  assume "\<not> ps_contains E sp x2 \<and>
    (\<forall>x. part_ufunc E name x (Some (Whole x2)) [] s = Inr (g x, s))"
  then show "productspace_2_1 E name \<lparr>ps_space = sp, ps_parts = xs\<rparr> x2 None s =
        ps_element E sp (Some (map g xs)) s"
    using productspace_2_1_broadcast_pure [of E sp x2 name s g xs] by simp
qed

theorem productspace_two_input_componentwise_witness:
  "productspace_2_1 part_backend ''add'' (P [1, 2]) (ProductElem (P [10, 20])) None 0 =
     Inr (P [1 + 10, 2 + 20], 0) \<and>
   productspace_2_1 part_backend ''add'' (P [1, 2]) (OtherVal 5) None 0 =
     Inr (P [1 + 5, 2 + 5], 0)"
  using productspace_two_input_componentwise [of part_backend "''add''" "P [1, 2]" "P [10, 20]" 0
      "OtherVal 5" "''X x X''" "''X x X''" 10 20 "\<lambda>x y. x + y" 1 2 "[10, 20]" "[1, 2]"
      "\<lambda>x. x + 5"]
  by (simp add: part_backend_def P_def)

section \<open>Properties of the reduction wrapper\<close>

lemma reduction_scalar:
  "np_function E name elem (reduction_kwargs axis keepdims kw) None s =
     Inr (ScalarResult v, s1) \<Longrightarrow>
   wrap_reduction_numpy E name elem axis None keepdims kw s = Inr (ReturnScalar v, s1)"
  by (simp add: wrap_reduction_numpy_def Let_def)

lemma downgraded_if:
  "(if isinstance_ArrayWeighting w then NumpyTensorSpaceNoWeighting p else w) = downgraded p w"
  by (cases w) simp_all

lemma reduction_array:
  "np_function E name elem (reduction_kwargs axis keepdims kw) None s =
     Inr (ArrayResult shape arr, s1) \<Longrightarrow>
   wrap_reduction_numpy E name elem axis None keepdims kw s =
     (case space_constr E (ts_type (t_space elem))
             \<lparr>arg_shape = shape,
              arg_dtype = (case reduction_kwargs axis keepdims kw ''dtype'' of
                             Some v \<Rightarrow> v | None \<Rightarrow> StrVal (t_dtype elem)),
              arg_order = t_order elem,
              kw_exponent = ts_exponent (t_space elem),
              kw_weighting =
                map_option (downgraded (ts_exponent (t_space elem)))
                  (ts_weighting (t_space elem))\<rparr> s1 of
        Inl e \<Rightarrow> Inl e
      | Inr (out_space, s2) \<Rightarrow>
         (case space_element E out_space arr s2 of
            Inl e \<Rightarrow> Inl e
          | Inr (y, s3) \<Rightarrow> Inr (ReturnElement y, s3)))"
  by (simp add: wrap_reduction_numpy_def Let_def downgraded_if map_option_case
      split: option.splits)

lemma downgraded_not_array: "\<not> isinstance_ArrayWeighting (downgraded p w)"
  by (cases w) simp_all

lemma downgraded_other: "\<not> isinstance_ArrayWeighting w \<Longrightarrow> downgraded p w = w"
  by (cases w) simp_all

lemma reduction_out:
  "wrap_reduction_numpy E name elem axis (Some ob) keepdims kw s =
     (case np_function E name elem (reduction_kwargs axis keepdims kw) (Some (t_data ob)) s of
        Inl e \<Rightarrow> Inl e
      | Inr (r, s1) \<Rightarrow> Inr (ReturnOut ob, s1))"
  by (simp add: wrap_reduction_numpy_def Let_def)

lemma reduction_out_no_constr:
  "wrap_reduction_numpy (E\<lparr>space_constr := c, space_element := el\<rparr>) name elem axis (Some ob)
     keepdims kw s =
   wrap_reduction_numpy E name elem axis (Some ob) keepdims kw s"
  by (simp add: wrap_reduction_numpy_def Let_def)

text \<open>
  C8. Without an output buffer, a scalar result of the numpy function is returned as
  it is, with no space constructed; an array result is made an element of a space
  constructed by the class of the element's space, from the shape of the result, the
  dtype, the element's ordering, the space's exponent, and the space's weighting with
  an array weighting replaced by the no-op weighting, so that the weighting given to
  the constructor is never an array weighting and any other weighting is the space's
  own. With an output buffer, the function is called with the buffer's data as
  \<open>out\<close>, the buffer is returned, and the constructor and \<open>element\<close> of a space play no
  part.
\<close>

theorem reduction_output_space:
  "(np_function E name elem (reduction_kwargs axis keepdims kw) None s =
      Inr (ScalarResult v, s1) \<longrightarrow>
    wrap_reduction_numpy E name elem axis None keepdims kw s = Inr (ReturnScalar v, s1)) \<and>
   (np_function E name elem (reduction_kwargs axis keepdims kw) None s =
      Inr (ArrayResult shape arr, s1) \<longrightarrow>
    wrap_reduction_numpy E name elem axis None keepdims kw s =
      (case space_constr E (ts_type (t_space elem))
              \<lparr>arg_shape = shape,
               arg_dtype = (case reduction_kwargs axis keepdims kw ''dtype'' of
                              Some v \<Rightarrow> v | None \<Rightarrow> StrVal (t_dtype elem)),
               arg_order = t_order elem,
               kw_exponent = ts_exponent (t_space elem),
               kw_weighting =
                 map_option (downgraded (ts_exponent (t_space elem)))
                   (ts_weighting (t_space elem))\<rparr> s1 of
         Inl e \<Rightarrow> Inl e
       | Inr (out_space, s2) \<Rightarrow>
          (case space_element E out_space arr s2 of
             Inl e \<Rightarrow> Inl e
           | Inr (y, s3) \<Rightarrow> Inr (ReturnElement y, s3)))) \<and>
   (\<forall>w'. map_option (downgraded (ts_exponent (t_space elem))) (ts_weighting (t_space elem)) =
           Some w' \<longrightarrow> \<not> isinstance_ArrayWeighting w') \<and>
   (ts_weighting (t_space elem) = Some (NumpyTensorSpaceArrayWeighting a q) \<longrightarrow>
      map_option (downgraded (ts_exponent (t_space elem))) (ts_weighting (t_space elem)) =
        Some (NumpyTensorSpaceNoWeighting (ts_exponent (t_space elem)))) \<and>
   (ts_weighting (t_space elem) = Some w \<and> \<not> isinstance_ArrayWeighting w \<longrightarrow>
      map_option (downgraded (ts_exponent (t_space elem))) (ts_weighting (t_space elem)) =
        Some w) \<and>
   wrap_reduction_numpy E name elem axis (Some ob) keepdims kw s =
     (case np_function E name elem (reduction_kwargs axis keepdims kw) (Some (t_data ob)) s of
        Inl e \<Rightarrow> Inl e
      | Inr (r, s1) \<Rightarrow> Inr (ReturnOut ob, s1)) \<and>
   wrap_reduction_numpy (E\<lparr>space_constr := c, space_element := el\<rparr>) name elem axis (Some ob)
       keepdims kw s =
     wrap_reduction_numpy E name elem axis (Some ob) keepdims kw s"
  using reduction_scalar [of E name elem axis keepdims kw s v s1]
    reduction_array [of E name elem axis keepdims kw s shape arr s1]
    downgraded_not_array [of "ts_exponent (t_space elem)"]
    downgraded_other [of w "ts_exponent (t_space elem)"]
    reduction_out [of E name elem axis ob keepdims kw s]
    reduction_out_no_constr [where E = E and c = c and el = el and name = name
      and elem = elem and axis = axis and ob = ob and keepdims = keepdims and kw = kw and s = s]
  by auto

theorem reduction_output_space_witness:
  "wrap_reduction_numpy sum_backend ''sum'' (weighted_tensor 0) None None False Map.empty
       [[1, 2, 3], [0]] =
     Inr (ReturnScalar 6, [[1, 2, 3], [0]]) \<and>
   wrap_reduction_numpy sum_backend ''sum'' (weighted_tensor 0) (Some (IntVal 0)) None True
       Map.empty [[1, 2, 3], [0]] =
     Inr (ReturnElement
            \<lparr>t_space = \<lparr>ts_type = ''NumpyTensorSpace'', ts_exponent = Some 2,
                        ts_weighting = Some (NumpyTensorSpaceNoWeighting (Some 2))\<rparr>,
             t_dtype = ''int64'', t_order = ''C'', t_data = 2\<rparr>,
          [[1, 2, 3], [0], [6]]) \<and>
   wrap_reduction_numpy sum_backend ''sum'' (weighted_tensor 0) None (Some (weighted_tensor 1))
       False Map.empty [[1, 2, 3], [0]] =
     Inr (ReturnOut (weighted_tensor 1), [[1, 2, 3], [6]])"
  using reduction_output_space [where E = sum_backend and name = "''sum''"
      and elem = "weighted_tensor 0" and axis = None and keepdims = False and kw = Map.empty
      and s = "[[1, 2, 3], [0]]" and v = 6 and ?s1.0 = "[[1, 2, 3], [0]]"
      and ob = "weighted_tensor 1"]
    reduction_output_space [where E = sum_backend and name = "''sum''"
      and elem = "weighted_tensor 0" and axis = "Some (IntVal 0)" and keepdims = True
      and kw = Map.empty and s = "[[1, 2, 3], [0]]" and ?s1.0 = "[[1, 2, 3], [0], [6]]"
      and shape = "[1]" and arr = 2]
  by (simp add: sum_backend_def weighted_tensor_def weighted_space_def reduction_kwargs_def)

end
